theory Spec2Isabelle
  imports Complex_Main "HOL-Library.AList"
begin

section \<open>Python values, exceptions and tables\<close>

text \<open>
  The end user functions of \<^verbatim>\<open>pwv_kpno/end_user_functions.py\<close> take dynamically typed
  arguments, so an argument is a value of \<open>pyval\<close>. A Python \<^verbatim>\<open>bool\<close> is an \<^verbatim>\<open>int\<close>
  (\<^verbatim>\<open>True == 1\<close>, \<^verbatim>\<open>False == 0\<close>, \<^verbatim>\<open>isinstance(True, int)\<close>) and is written \<open>PyInt 1\<close>,
  \<open>PyInt 0\<close>. Python floats are modelled by the reals: rounding is outside this model.
\<close>

record datetime =
  dt_year :: int
  dt_month :: int
  dt_day :: int
  dt_hour :: int
  dt_minute :: int
  dt_second :: int
  dt_microsecond :: int

datatype pyval = PyNone | PyInt int | PyFloat real | PyStr string | PyDatetime datetime

datatype error =
    TypeError string
  | ValueError string
  | IndexError string
  | KeyError string
  | FileNotFoundError string

text \<open>
  An astropy table with a leading \<^verbatim>\<open>date\<close> column of type \<open>'d\<close> (epoch seconds on disk,
  \<open>datetime\<close> once converted) and the remaining columns of a row as \<open>'v\<close>: the list of site
  columns for \<^verbatim>\<open>measured_pwv.csv\<close>, the single \<^verbatim>\<open>pwv\<close> column for \<^verbatim>\<open>modeled_pwv.csv\<close>.
\<close>

record ('d, 'v) table =
  colnames :: "string list"
  units :: "(string \<times> string) list"
  rows :: "('d \<times> 'v) list"

text \<open>An atmospheric model file: rows of (wavelength, transmission).\<close>

type_synonym atm_table = "(real \<times> real) list"

text \<open>
  What the functions read from their surroundings: the two PWV tables under \<^verbatim>\<open>PWV_TAB_DIR\<close>,
  the listing of \<^verbatim>\<open>ATM_MOD_DIR\<close> in the order \<^verbatim>\<open>os.listdir\<close> gives it and the tables
  stored there (by path), and three library functions the model takes as given:
  \<^verbatim>\<open>datetime.fromtimestamp\<close> and \<^verbatim>\<open>datetime.timestamp\<close> (they depend on the local time zone)
  and the builtin \<^verbatim>\<open>float\<close> on strings (\<open>None\<close> where it raises \<^verbatim>\<open>ValueError\<close>).
  \<open>reads\<close> logs the path of every file or directory read, oldest first.
\<close>

record world =
  measured_pwv_csv :: "(real, real list) table option"
  modeled_pwv_csv :: "(real, real) table option"
  atm_mod_listing :: "string list option"
  atm_mod_csv :: "string \<Rightarrow> atm_table option"
  fromtimestamp :: "real \<Rightarrow> datetime"
  timestamp :: "datetime \<Rightarrow> real"
  py_float :: "string \<Rightarrow> real option"
  reads :: "string list"

definition ATM_MOD_DIR :: string where
  "ATM_MOD_DIR = ''./atm_models''"

definition PWV_TAB_DIR :: string where
  "PWV_TAB_DIR = ''./pwv_tables/''"

subsection \<open>Library functions the code calls\<close>

definition bind_err :: "error + 'a \<Rightarrow> ('a \<Rightarrow> error + 'b) \<Rightarrow> error + 'b" where
  "bind_err m f = (case m of Inl e \<Rightarrow> Inl e | Inr x \<Rightarrow> f x)"

definition endswith :: "string \<Rightarrow> string \<Rightarrow> bool" where
  "endswith s suffix = (length suffix \<le> length s \<and> drop (length s - length suffix) s = suffix)"

text \<open>\<^verbatim>\<open>s.split(sep)\<close> for a one-character separator: never empty, \<^verbatim>\<open>''.split('_') == ['']\<close>.\<close>

fun py_split :: "char \<Rightarrow> string \<Rightarrow> string list" where
  "py_split sep [] = [[]]"
| "py_split sep (c # cs) =
     (if c = sep then [] # py_split sep cs
      else (case py_split sep cs of
              [] \<Rightarrow> [[c]]
            | p # ps \<Rightarrow> (c # p) # ps))"

definition os_path_basename :: "string \<Rightarrow> string" where
  "os_path_basename p = rev (takeWhile (\<lambda>c. c \<noteq> CHR ''/'') (rev p))"

definition os_path_join :: "string \<Rightarrow> string \<Rightarrow> string" where
  "os_path_join a b =
     (if b \<noteq> [] \<and> hd b = CHR ''/'' then b
      else if a = [] \<or> last a = CHR ''/'' then a @ b
      else a @ ''/'' @ b)"

text \<open>\<^verbatim>\<open>xs[i]\<close> for a non-negative index.\<close>

definition py_index :: "'a list \<Rightarrow> nat \<Rightarrow> error + 'a" where
  "py_index xs i =
     (if i < length xs then Inr (xs ! i) else Inl (IndexError ''index out of range''))"

text \<open>
  \<^verbatim>\<open>np.vectorize(f)(column)\<close>: \<open>f\<close> on every element; numpy refuses an empty input when no
  output type was given.
\<close>

definition np_vectorize :: "('a \<Rightarrow> 'b) \<Rightarrow> 'a list \<Rightarrow> error + 'b list" where
  "np_vectorize f xs =
     (if xs = [] then Inl (ValueError ''cannot call `vectorize` on size 0 inputs unless `otypes` is set'')
      else Inr (map f xs))"

definition np_logical_and :: "bool list \<Rightarrow> bool list \<Rightarrow> bool list" where
  "np_logical_and a b = map (\<lambda>(x, y). x \<and> y) (zip a b)"

text \<open>\<^verbatim>\<open>np.where(indx)[0]\<close>: the positions that hold \<^verbatim>\<open>True\<close>, ascending.\<close>

definition np_where :: "bool list \<Rightarrow> nat list" where
  "np_where indx = filter (\<lambda>i. indx ! i) [0..<length indx]"

text \<open>\<^verbatim>\<open>table[indices]\<close>: the rows at the given positions; columns and units stay.\<close>

definition take_rows :: "('d, 'v) table \<Rightarrow> nat list \<Rightarrow> ('d, 'v) table" where
  "take_rows tab idx = tab\<lparr>rows := map (\<lambda>i. rows tab ! i) idx\<rparr>"

definition set_unit :: "string \<Rightarrow> string \<Rightarrow> ('d, 'v) table \<Rightarrow> ('d, 'v) table" where
  "set_unit colname u tab = tab\<lparr>units := AList.update colname u (units tab)\<rparr>"

text \<open>\<^verbatim>\<open>table['date'] = dates\<close>: the date column replaced, the other columns kept.\<close>

definition set_date :: "('d, 'v) table \<Rightarrow> 'e list \<Rightarrow> ('e, 'v) table" where
  "set_date tab dates =
     \<lparr>colnames = colnames tab, units = units tab, rows = zip dates (map snd (rows tab))\<rparr>"

text \<open>\<^verbatim>\<open>Table.read\<close> of the two PWV tables; a missing file raises.\<close>

definition Table_read_measured :: "world \<Rightarrow> (error + (real, real list) table) \<times> world" where
  "Table_read_measured w =
     (let path = os_path_join PWV_TAB_DIR ''measured_pwv.csv'';
          w' = w\<lparr>reads := reads w @ [path]\<rparr>
      in case measured_pwv_csv w of
           None \<Rightarrow> (Inl (FileNotFoundError path), w')
         | Some tab \<Rightarrow> (Inr tab, w'))"

definition Table_read_modeled :: "world \<Rightarrow> (error + (real, real) table) \<times> world" where
  "Table_read_modeled w =
     (let path = os_path_join PWV_TAB_DIR ''modeled_pwv.csv'';
          w' = w\<lparr>reads := reads w @ [path]\<rparr>
      in case modeled_pwv_csv w of
           None \<Rightarrow> (Inl (FileNotFoundError path), w')
         | Some tab \<Rightarrow> (Inr tab, w'))"

section \<open>\<^verbatim>\<open>measured_pwv\<close> and \<^verbatim>\<open>modeled_pwv\<close>\<close>

definition isinstance_int :: "pyval \<Rightarrow> bool" where
  "isinstance_int v = (case v of PyInt n \<Rightarrow> True | _ \<Rightarrow> False)"

text \<open>The truth value of an argument in \<^verbatim>\<open>if year:\<close>.\<close>

definition truthy :: "pyval \<Rightarrow> bool" where
  "truthy v =
     (case v of
        PyNone \<Rightarrow> False
      | PyInt n \<Rightarrow> n \<noteq> 0
      | PyFloat r \<Rightarrow> r \<noteq> 0
      | PyStr s \<Rightarrow> s \<noteq> []
      | PyDatetime d \<Rightarrow> True)"

text \<open>\<^verbatim>\<open>x.year == year\<close>: an \<^verbatim>\<open>int\<close> attribute compared with an argument.\<close>

definition int_eq :: "int \<Rightarrow> pyval \<Rightarrow> bool" where
  "int_eq n v =
     (case v of
        PyInt k \<Rightarrow> n = k
      | PyFloat r \<Rightarrow> of_int n = r
      | _ \<Rightarrow> False)"

text \<open>
  The argument checks that open both functions (lines 117-139 and 196-218, the same text):
  \<open>None\<close> when every check passes, otherwise the exception of the first check that fails.
\<close>

definition check_args :: "pyval \<Rightarrow> pyval \<Rightarrow> pyval \<Rightarrow> pyval \<Rightarrow> error option" where
  "check_args year month day hour =
     (if \<not> (isinstance_int year \<or> year = PyNone)
        then Some (TypeError ''Argument 'year' (pos 1) must be an integer.'')
      else if year = PyNone \<and> month \<noteq> PyNone
        then Some (ValueError ''Argument 'month' (pos 2) specified without 'year' (pos 1).'')
      else if \<not> (isinstance_int month \<or> month = PyNone)
        then Some (TypeError ''Argument 'month' (pos 2) must be an integer.'')
      else if month = PyNone \<and> day \<noteq> PyNone
        then Some (ValueError ''Argument 'day' (pos 3) specified without 'month' (pos 2).'')
      else if \<not> (isinstance_int day \<or> day = PyNone)
        then Some (TypeError ''Argument 'day' (pos 2) must be an integer.'')
      else if day = PyNone \<and> hour \<noteq> PyNone
        then Some (ValueError ''Argument 'hour' (pos 4) specified without 'day' (pos 3).'')
      else if \<not> (isinstance_int hour \<or> hour = PyNone)
        then Some (TypeError ''Argument 'hour' (pos 4) must be an integer.'')
      else None)"

text \<open>
  One refinement step (lines 160-170): \<^verbatim>\<open>if month: indx = np.logical_and(indx, test_func(dates))\<close>
  with \<^verbatim>\<open>test_func = np.vectorize(lambda x: x.month == month)\<close>.
\<close>

definition refine_by ::
  "pyval \<Rightarrow> (datetime \<Rightarrow> int) \<Rightarrow> datetime list \<Rightarrow> bool list \<Rightarrow> error + bool list" where
  "refine_by field attr dates indx =
     (if truthy field
      then bind_err (np_vectorize (\<lambda>x. int_eq (attr x) field) dates)
             (\<lambda>test. Inr (np_logical_and indx test))
      else Inr indx)"

text \<open>
  ``Refine results to only include datetimes indicated by kwargs'' (lines 153-172 and
  228-247, the same text).
\<close>

definition refine ::
  "pyval \<Rightarrow> pyval \<Rightarrow> pyval \<Rightarrow> pyval \<Rightarrow> (datetime, 'v) table \<Rightarrow> error + (datetime, 'v) table" where
  "refine year month day hour pwv_data =
     (let dates = map fst (rows pwv_data) in
      if truthy year then
        bind_err (np_vectorize (\<lambda>x. int_eq (dt_year x) year) dates) (\<lambda>indx.
        bind_err (refine_by month dt_month dates indx) (\<lambda>indx.
        bind_err (refine_by day dt_day dates indx) (\<lambda>indx.
        bind_err (refine_by hour dt_hour dates indx) (\<lambda>indx.
        Inr (take_rows pwv_data (np_where indx))))))
      else Inr pwv_data)"

text \<open>Lines 144-151: the dates become datetimes, the units are attached.\<close>

definition measured_units :: "('d, 'v) table \<Rightarrow> ('d, 'v) table" where
  "measured_units pwv_data =
     foldl (\<lambda>tab colname. if colname \<noteq> ''date'' then set_unit colname ''mm'' tab else tab)
       (set_unit ''date'' ''UTC'' pwv_data) (colnames pwv_data)"

definition measured_pwv ::
  "pyval \<Rightarrow> pyval \<Rightarrow> pyval \<Rightarrow> pyval \<Rightarrow> world \<Rightarrow> (error + (datetime, real list) table) \<times> world" where
  "measured_pwv year month day hour w =
     (case check_args year month day hour of
        Some e \<Rightarrow> (Inl e, w)
      | None \<Rightarrow>
         (case Table_read_measured w of
            (Inl e, w') \<Rightarrow> (Inl e, w')
          | (Inr pwv_data, w') \<Rightarrow>
              (bind_err (np_vectorize (fromtimestamp w') (map fst (rows pwv_data)))
                 (\<lambda>dates. refine year month day hour (measured_units (set_date pwv_data dates))),
               w')))"

text \<open>Lines 223-226.\<close>

definition modeled_units :: "('d, 'v) table \<Rightarrow> ('d, 'v) table" where
  "modeled_units pwv_data = set_unit ''pwv'' ''mm'' (set_unit ''date'' ''UTC'' pwv_data)"

definition modeled_pwv ::
  "pyval \<Rightarrow> pyval \<Rightarrow> pyval \<Rightarrow> pyval \<Rightarrow> world \<Rightarrow> (error + (datetime, real) table) \<times> world" where
  "modeled_pwv year month day hour w =
     (case check_args year month day hour of
        Some e \<Rightarrow> (Inl e, w)
      | None \<Rightarrow>
         (case Table_read_modeled w of
            (Inl e, w') \<Rightarrow> (Inl e, w')
          | (Inr pwv_data, w') \<Rightarrow>
              (bind_err (np_vectorize (fromtimestamp w') (map fst (rows pwv_data)))
                 (\<lambda>dates. refine year month day hour (modeled_units (set_date pwv_data dates))),
               w')))"

section \<open>\<^verbatim>\<open>transmission\<close>\<close>

subsection \<open>\<^verbatim>\<open>np.interp\<close>\<close>

text \<open>
  \<^verbatim>\<open>np.interp(x, xp, fp)\<close> is numpy's, not this package's. Its documentation: the piecewise
  linear interpolant through the points \<open>(xp, fp)\<close>, \<open>fp[0]\<close> left of \<open>xp[0]\<close> and \<open>fp[-1]\<close>
  right of \<open>xp[-1]\<close>; \<open>xp\<close> must be increasing, which numpy does not check (``if \<open>xp\<close> is not
  increasing, the results are nonsense''). The model follows numpy's routine: the right end
  is tested first, then the left end, then the segment is found by scanning
  (\<^verbatim>\<open>for (i = 1; i < len && key >= arr[i]; ++i)\<close>); numpy bisects arrays longer than four
  points, which finds the same segment whenever \<open>xp\<close> is increasing.
\<close>

fun interp_segment :: "real \<Rightarrow> (real \<times> real) list \<Rightarrow> real" where
  "interp_segment x ((x0, y0) # (x1, y1) # ps) =
     (if x1 \<le> x then interp_segment x ((x1, y1) # ps)
      else if x0 = x then y0
      else (y1 - y0) / (x1 - x0) * (x - x0) + y0)"
| "interp_segment x [(x0, y0)] = y0"
| "interp_segment x [] = 0"

definition np_interp :: "real \<Rightarrow> real list \<Rightarrow> real list \<Rightarrow> error + real" where
  "np_interp x xp fp =
     (if xp = [] then Inl (ValueError ''array of sample points is empty'')
      else if length fp \<noteq> length xp then Inl (ValueError ''fp and xp are not of the same length.'')
      else if last xp < x then Inr (last fp)
      else if x < hd xp then Inr (hd fp)
      else Inr (interp_segment x (zip xp fp)))"

subsection \<open>Reading the inputs\<close>

text \<open>\<^verbatim>\<open>isinstance(airmass, (float, int))\<close>, with the number it stands for.\<close>

definition airmass_value :: "pyval \<Rightarrow> real option" where
  "airmass_value v =
     (case v of
        PyInt n \<Rightarrow> Some (of_int n)
      | PyFloat r \<Rightarrow> Some r
      | _ \<Rightarrow> None)"

text \<open>
  ``Determine the PWV level at zenith for the specified datetime'' (lines 275-277).
\<close>

definition pwv_z :: "datetime \<Rightarrow> world \<Rightarrow> (error + real) \<times> world" where
  "pwv_z date w =
     (case Table_read_modeled w of
        (Inl e, w') \<Rightarrow> (Inl e, w')
      | (Inr pwv_model, w') \<Rightarrow>
          (np_interp (timestamp w' date) (map fst (rows pwv_model)) (map snd (rows pwv_model)),
           w'))"

text \<open>``Determine the PWV level along line of sight'' (lines 279-280).\<close>

definition pwv_los :: "datetime \<Rightarrow> real \<Rightarrow> world \<Rightarrow> (error + real) \<times> world" where
  "pwv_los date airmass w =
     (case pwv_z date w of
        (Inl e, w') \<Rightarrow> (Inl e, w')
      | (Inr z, w') \<Rightarrow> (Inr (z * airmass), w'))"

text \<open>
  The dictionary \<^verbatim>\<open>atm_mods\<close>: PWV level to table, in insertion order (what iterating a
  Python dictionary gives); storing under a key that is present replaces the table in place.
\<close>

type_synonym atm_dict = "(real \<times> atm_table) list"

definition dict_get :: "atm_dict \<Rightarrow> real \<Rightarrow> error + atm_table" where
  "dict_get d k = (case map_of d k of None \<Rightarrow> Inl (KeyError ''key'') | Some tab \<Rightarrow> Inr tab)"

definition os_listdir_atm :: "world \<Rightarrow> (error + string list) \<times> world" where
  "os_listdir_atm w =
     (let w' = w\<lparr>reads := reads w @ [ATM_MOD_DIR]\<rparr>
      in case atm_mod_listing w of
           None \<Rightarrow> (Inl (FileNotFoundError ATM_MOD_DIR), w')
         | Some files \<Rightarrow> (Inr files, w'))"

definition Table_read_atm :: "string \<Rightarrow> world \<Rightarrow> (error + atm_table) \<times> world" where
  "Table_read_atm path w =
     (let w' = w\<lparr>reads := reads w @ [path]\<rparr>
      in case atm_mod_csv w path of
           None \<Rightarrow> (Inl (FileNotFoundError path), w')
         | Some tab \<Rightarrow> (Inr tab, w'))"

text \<open>``Read in the atmospheric models from file'' (lines 282-288): the loop over the listing.\<close>

fun read_atm_mods :: "string list \<Rightarrow> atm_dict \<Rightarrow> world \<Rightarrow> (error + atm_dict) \<times> world" where
  "read_atm_mods [] mods w = (Inr mods, w)"
| "read_atm_mods (file # files) mods w =
     (if endswith file ''.csv'' then
        (case py_index (py_split CHR ''_'' (os_path_basename file)) 3 of
           Inl e \<Rightarrow> (Inl e, w)
         | Inr s \<Rightarrow>
            (case py_float w s of
               None \<Rightarrow> (Inl (ValueError ''could not convert string to float''), w)
             | Some pwv_value \<Rightarrow>
                (case Table_read_atm (os_path_join ATM_MOD_DIR file) w of
                   (Inl e, w') \<Rightarrow> (Inl e, w')
                 | (Inr tab, w') \<Rightarrow> read_atm_mods files (AList.update pwv_value tab mods) w')))
      else read_atm_mods files mods w)"

definition atm_mods :: "world \<Rightarrow> (error + atm_dict) \<times> world" where
  "atm_mods w =
     (case os_listdir_atm w of
        (Inl e, w') \<Rightarrow> (Inl e, w')
      | (Inr files, w') \<Rightarrow> read_atm_mods files [] w')"

subsection \<open>The transmission function\<close>

definition py_min :: "real list \<Rightarrow> error + real" where
  "py_min xs =
     (case xs of
        [] \<Rightarrow> Inl (ValueError ''min() arg is an empty sequence'')
      | x # ys \<Rightarrow> Inr (foldl min x ys))"

text \<open>A list comprehension whose element expression can raise.\<close>

fun map_err :: "('a \<Rightarrow> error + 'b) \<Rightarrow> 'a list \<Rightarrow> error + 'b list" where
  "map_err f [] = Inr []"
| "map_err f (x # xs) =
     (case f x of
        Inl e \<Rightarrow> Inl e
      | Inr y \<Rightarrow> (case map_err f xs of Inl e \<Rightarrow> Inl e | Inr ys \<Rightarrow> Inr (y # ys)))"

text \<open>
  ``Calculate the transmission function'' (lines 294-301): the loop over
  \<^verbatim>\<open>enumerate(wavelengths)\<close>, with the table built so far.
\<close>

fun trans_rows ::
  "real \<Rightarrow> atm_dict \<Rightarrow> (nat \<times> real) list \<Rightarrow> atm_table \<Rightarrow> error + atm_table" where
  "trans_rows los mods [] tf = Inr tf"
| "trans_rows los mods ((i, wvlngth) # rest) tf =
     (case map_err (\<lambda>pwv. bind_err (dict_get mods pwv) (\<lambda>tab. py_index (map snd tab) i))
             (map fst mods) of
        Inl e \<Rightarrow> Inl e
      | Inr transm \<Rightarrow>
         (case np_interp los (map fst mods) transm of
            Inl e \<Rightarrow> Inl e
          | Inr interp_trans \<Rightarrow> trans_rows los mods rest (tf @ [(wvlngth, interp_trans)])))"

text \<open>Lines 290-303.\<close>

definition trans_func :: "real \<Rightarrow> atm_dict \<Rightarrow> error + atm_table" where
  "trans_func los mods =
     bind_err (py_min (map fst mods)) (\<lambda>k.
     bind_err (dict_get mods k) (\<lambda>tab.
     trans_rows los mods (enumerate 0 (map fst tab)) []))"

definition transmission :: "pyval \<Rightarrow> pyval \<Rightarrow> world \<Rightarrow> (error + atm_table) \<times> world" where
  "transmission date airmass w =
     (case date of
        PyDatetime d \<Rightarrow>
          (case airmass_value airmass of
             None \<Rightarrow> (Inl (TypeError ''Argument 'airmass' (pos 2) should be a float instance''), w)
           | Some a \<Rightarrow>
              (case pwv_los d a w of
                 (Inl e, w') \<Rightarrow> (Inl e, w')
               | (Inr los, w') \<Rightarrow>
                  (case atm_mods w' of
                     (Inl e, w'') \<Rightarrow> (Inl e, w'')
                   | (Inr mods, w'') \<Rightarrow> (trans_func los mods, w''))))
      | _ \<Rightarrow> (Inl (TypeError ''Argument 'date' (pos 1) must be a datetime instance''), w))"

section \<open>Example data\<close>

text \<open>
  A small installation on which the statements below are tried: two measurements on
  2016-01-01 (00:30 and 05:00), the modelled series \<open>(3600, 5)\<close>, \<open>(4600, 15)\<close>, and two
  atmospheric models, PWV 4.0 with transmission \<open>[0.9, 0.8]\<close> and PWV 6.0 with \<open>[0.7, 0.6]\<close>,
  on the grid 7000, 7001. The clock counts seconds from the start of that day, so the
  modelled series is dated 01:00:00 and 01:16:40.
\<close>

definition example_date :: "int \<Rightarrow> int \<Rightarrow> int \<Rightarrow> datetime" where
  "example_date h m s =
     \<lparr>dt_year = 2016, dt_month = 1, dt_day = 1, dt_hour = h, dt_minute = m, dt_second = s,
      dt_microsecond = 0\<rparr>"

definition example_world :: world where
  "example_world =
     \<lparr>measured_pwv_csv =
        Some \<lparr>colnames = [''date'', ''KITT'', ''AZAM''], units = [],
              rows = [(1800, [4.5, 5.5]), (18000, [6.5, 7.5])]\<rparr>,
      modeled_pwv_csv =
        Some \<lparr>colnames = [''date'', ''pwv''], units = [], rows = [(3600, 5), (4600, 15)]\<rparr>,
      atm_mod_listing = Some [''atm_model_pwv_4.0_.csv'', ''README.txt'', ''atm_model_pwv_6.0_.csv''],
      atm_mod_csv =
        (\<lambda>path. if path = ''./atm_models/atm_model_pwv_4.0_.csv'' then Some [(7000, 0.9), (7001, 0.8)]
               else if path = ''./atm_models/atm_model_pwv_6.0_.csv'' then Some [(7000, 0.7), (7001, 0.6)]
               else None),
      fromtimestamp = (\<lambda>t. example_date \<lfloor>t / 3600\<rfloor> (\<lfloor>t / 60\<rfloor> mod 60) (\<lfloor>t\<rfloor> mod 60)),
      timestamp = (\<lambda>d. of_int (3600 * dt_hour d + 60 * dt_minute d + dt_second d)),
      py_float = (\<lambda>s. if s = ''4.0'' then Some 4 else if s = ''6.0'' then Some 6 else None),
      reads = []\<rparr>"

text \<open>The same installation with the directory listed in the opposite order.\<close>

definition descending_world :: world where
  "descending_world =
     example_world\<lparr>atm_mod_listing := Some [''atm_model_pwv_6.0_.csv'', ''atm_model_pwv_4.0_.csv'']\<rparr>"

text \<open>The same installation with a PWV 6.0 model of one row only.\<close>

definition short_curve_world :: world where
  "short_curve_world =
     example_world\<lparr>atm_mod_csv :=
        (\<lambda>path. if path = ''./atm_models/atm_model_pwv_4.0_.csv'' then Some [(7000, 0.9), (7001, 0.8)]
               else if path = ''./atm_models/atm_model_pwv_6.0_.csv'' then Some [(7000, 0.7)]
               else None)\<rparr>"

section \<open>Properties\<close>

text \<open>
  A function on the world that only reads: run from the same data with any log, it gives
  the same result and appends the same entries to the log.
\<close>

definition reads_only :: "(world \<Rightarrow> 'a \<times> world) \<Rightarrow> bool" where
  "reads_only f = (\<forall>w. \<exists>s. \<forall>l. f (w\<lparr>reads := l\<rparr>) = (fst (f w), w\<lparr>reads := l @ s\<rparr>))"

subsection \<open>The argument checks of \<^verbatim>\<open>measured_pwv\<close> and \<^verbatim>\<open>modeled_pwv\<close>\<close>

text \<open>A failed check ends either function before anything is read.\<close>

lemma check_args_fails:
  "check_args year month day hour = Some e \<Longrightarrow>
     measured_pwv year month day hour w = (Inl e, w) \<and> modeled_pwv year month day hour w = (Inl e, w)"
  by (simp add: measured_pwv_def modeled_pwv_def)

lemma check_month_without_year:
  "year = PyNone \<Longrightarrow> month \<noteq> PyNone \<Longrightarrow>
   check_args year month day hour =
     Some (ValueError ''Argument 'month' (pos 2) specified without 'year' (pos 1).'')"
  by (simp add: check_args_def isinstance_int_def)

lemma check_day_without_month:
  "isinstance_int year \<or> year = PyNone \<Longrightarrow> month = PyNone \<Longrightarrow> day \<noteq> PyNone \<Longrightarrow>
   check_args year month day hour =
     Some (ValueError ''Argument 'day' (pos 3) specified without 'month' (pos 2).'')"
  by (auto simp add: check_args_def isinstance_int_def)

lemma check_hour_without_day:
  "isinstance_int year \<or> year = PyNone \<Longrightarrow> isinstance_int month \<or> month = PyNone \<Longrightarrow>
   \<not> (year = PyNone \<and> month \<noteq> PyNone) \<Longrightarrow> day = PyNone \<Longrightarrow> hour \<noteq> PyNone \<Longrightarrow>
   check_args year month day hour =
     Some (ValueError ''Argument 'hour' (pos 4) specified without 'day' (pos 3).'')"
  by (auto simp add: check_args_def isinstance_int_def)

lemma check_broken_chain:
  "(year = PyNone \<and> month \<noteq> PyNone) \<or> (month = PyNone \<and> day \<noteq> PyNone) \<or> (day = PyNone \<and> hour \<noteq> PyNone)
   \<Longrightarrow> \<exists>e. check_args year month day hour = Some e"
  by (auto simp add: check_args_def)

text \<open>
  Claim C6, as amended. A call in which month is supplied without year, day without month or
  hour without day fails before any data is read and returns no data. The failure is the
  dependency error that names the field and its missing parent, for the first broken link of
  the chain, whenever every argument checked before that link is an integer or absent: always
  for month without year; for day without month when year is an integer or absent; for hour
  without day when year and month are integers or absent and month is not itself supplied
  without year.
\<close>

theorem dependency_errors:
  "(year = PyNone \<and> month \<noteq> PyNone \<longrightarrow>
      measured_pwv year month day hour w =
        (Inl (ValueError ''Argument 'month' (pos 2) specified without 'year' (pos 1).''), w) \<and>
      modeled_pwv year month day hour w =
        (Inl (ValueError ''Argument 'month' (pos 2) specified without 'year' (pos 1).''), w)) \<and>
   ((isinstance_int year \<or> year = PyNone) \<and> month = PyNone \<and> day \<noteq> PyNone \<longrightarrow>
      measured_pwv year month day hour w =
        (Inl (ValueError ''Argument 'day' (pos 3) specified without 'month' (pos 2).''), w) \<and>
      modeled_pwv year month day hour w =
        (Inl (ValueError ''Argument 'day' (pos 3) specified without 'month' (pos 2).''), w)) \<and>
   ((isinstance_int year \<or> year = PyNone) \<and> (isinstance_int month \<or> month = PyNone) \<and>
    \<not> (year = PyNone \<and> month \<noteq> PyNone) \<and> day = PyNone \<and> hour \<noteq> PyNone \<longrightarrow>
      measured_pwv year month day hour w =
        (Inl (ValueError ''Argument 'hour' (pos 4) specified without 'day' (pos 3).''), w) \<and>
      modeled_pwv year month day hour w =
        (Inl (ValueError ''Argument 'hour' (pos 4) specified without 'day' (pos 3).''), w)) \<and>
   ((year = PyNone \<and> month \<noteq> PyNone) \<or> (month = PyNone \<and> day \<noteq> PyNone) \<or>
    (day = PyNone \<and> hour \<noteq> PyNone) \<longrightarrow>
      (\<exists>e. measured_pwv year month day hour w = (Inl e, w) \<and>
           modeled_pwv year month day hour w = (Inl e, w)))"
proof (intro conjI impI)
  assume "(year = PyNone \<and> month \<noteq> PyNone) \<or> (month = PyNone \<and> day \<noteq> PyNone) \<or>
    (day = PyNone \<and> hour \<noteq> PyNone)"
  then obtain e where "check_args year month day hour = Some e"
    using check_broken_chain by blast
  then show "\<exists>e. measured_pwv year month day hour w = (Inl e, w) \<and>
           modeled_pwv year month day hour w = (Inl e, w)"
    using check_args_fails by blast
qed (simp_all add: check_args_fails check_month_without_year check_day_without_month
       check_hour_without_day)

theorem dependency_errors_witness:
  "measured_pwv PyNone (PyInt 5) PyNone PyNone example_world =
     (Inl (ValueError ''Argument 'month' (pos 2) specified without 'year' (pos 1).''), example_world) \<and>
   modeled_pwv (PyInt 2016) PyNone (PyInt 3) PyNone example_world =
     (Inl (ValueError ''Argument 'day' (pos 3) specified without 'month' (pos 2).''), example_world) \<and>
   measured_pwv (PyInt 2016) (PyInt 1) PyNone (PyInt 4) example_world =
     (Inl (ValueError ''Argument 'hour' (pos 4) specified without 'day' (pos 3).''), example_world) \<and>
   (\<exists>e. measured_pwv (PyStr ''2011'') PyNone (PyInt 3) PyNone example_world = (Inl e, example_world) \<and>
        modeled_pwv (PyStr ''2011'') PyNone (PyInt 3) PyNone example_world = (Inl e, example_world))"
proof -
  have month: "PyNone = PyNone \<and> PyInt 5 \<noteq> PyNone" by simp
  have day: "(isinstance_int (PyInt 2016) \<or> PyInt 2016 = PyNone) \<and> PyNone = PyNone \<and>
      PyInt 3 \<noteq> PyNone"
    by (simp add: isinstance_int_def)
  have hour: "(isinstance_int (PyInt 2016) \<or> PyInt 2016 = PyNone) \<and>
      (isinstance_int (PyInt 1) \<or> PyInt 1 = PyNone) \<and>
      \<not> (PyInt 2016 = PyNone \<and> PyInt 1 \<noteq> PyNone) \<and> PyNone = PyNone \<and> PyInt 4 \<noteq> PyNone"
    by (simp add: isinstance_int_def)
  have broken: "(PyStr ''2011'' = PyNone \<and> PyNone \<noteq> PyNone) \<or>
      (PyNone = PyNone \<and> PyInt 3 \<noteq> PyNone) \<or> (PyInt 3 = PyNone \<and> PyNone \<noteq> PyNone)"
    by simp
  note m = dependency_errors [of PyNone "PyInt 5" PyNone PyNone example_world,
      THEN conjunct1, THEN mp, OF month, THEN conjunct1]
  note d = dependency_errors [of "PyInt 2016" PyNone "PyInt 3" PyNone example_world,
      THEN conjunct2, THEN conjunct1, THEN mp, OF day, THEN conjunct2]
  note h = dependency_errors [of "PyInt 2016" "PyInt 1" PyNone "PyInt 4" example_world,
      THEN conjunct2, THEN conjunct2, THEN conjunct1, THEN mp, OF hour, THEN conjunct1]
  note f = dependency_errors [of "PyStr ''2011''" PyNone "PyInt 3" PyNone example_world,
      THEN conjunct2, THEN conjunct2, THEN conjunct2, THEN mp, OF broken]
  from m d h f show ?thesis by (intro conjI)
qed

text \<open>
  The claim as first stated promises the dependency error for every such call. With a
  non-integer year the check of year comes first: day is supplied without month here, and
  the call fails with the \<^verbatim>\<open>TypeError\<close> for year.
\<close>

theorem dependency_error_masked_by_type_error:
  "fst (measured_pwv (PyStr ''2011'') PyNone (PyInt 3) PyNone example_world) =
     Inl (TypeError ''Argument 'year' (pos 1) must be an integer.'')"
  by (simp add: measured_pwv_def check_args_def isinstance_int_def)

lemma check_year_type:
  "\<not> (isinstance_int year \<or> year = PyNone) \<Longrightarrow>
   check_args year month day hour = Some (TypeError ''Argument 'year' (pos 1) must be an integer.'')"
  by (simp add: check_args_def)

lemma check_month_type:
  "isinstance_int year \<Longrightarrow> \<not> (isinstance_int month \<or> month = PyNone) \<Longrightarrow>
   check_args year month day hour = Some (TypeError ''Argument 'month' (pos 2) must be an integer.'')"
  by (auto simp add: check_args_def isinstance_int_def)

lemma check_day_type:
  "isinstance_int year \<Longrightarrow> isinstance_int month \<Longrightarrow> \<not> (isinstance_int day \<or> day = PyNone) \<Longrightarrow>
   check_args year month day hour = Some (TypeError ''Argument 'day' (pos 2) must be an integer.'')"
  by (auto simp add: check_args_def isinstance_int_def)

lemma check_hour_type:
  "isinstance_int year \<Longrightarrow> isinstance_int month \<Longrightarrow> isinstance_int day \<Longrightarrow>
   \<not> (isinstance_int hour \<or> hour = PyNone) \<Longrightarrow>
   check_args year month day hour = Some (TypeError ''Argument 'hour' (pos 4) must be an integer.'')"
  by (auto simp add: check_args_def isinstance_int_def)

lemma check_non_integer:
  "\<not> (isinstance_int year \<or> year = PyNone) \<or> \<not> (isinstance_int month \<or> month = PyNone) \<or>
   \<not> (isinstance_int day \<or> day = PyNone) \<or> \<not> (isinstance_int hour \<or> hour = PyNone)
   \<Longrightarrow> \<exists>e. check_args year month day hour = Some e"
  by (auto simp add: check_args_def)

lemma check_absent_before_non_integer:
  "(year = PyNone \<and> \<not> (isinstance_int month \<or> month = PyNone)) \<or>
   ((isinstance_int year \<or> year = PyNone) \<and> (isinstance_int month \<or> month = PyNone) \<and>
    (year = PyNone \<or> month = PyNone) \<and> \<not> (isinstance_int day \<or> day = PyNone)) \<or>
   ((isinstance_int year \<or> year = PyNone) \<and> (isinstance_int month \<or> month = PyNone) \<and>
    (isinstance_int day \<or> day = PyNone) \<and>
    (year = PyNone \<or> month = PyNone \<or> day = PyNone) \<and> \<not> (isinstance_int hour \<or> hour = PyNone))
   \<Longrightarrow> \<exists>msg. check_args year month day hour = Some (ValueError msg)"
  by (auto simp add: check_args_def isinstance_int_def)

text \<open>
  Claim C7, as amended. A call in which any of year, month, day, hour is supplied with a
  non-integer value fails before any data is read and returns no data. When every argument
  before the first non-integer one is a supplied integer, the failure is a \<^verbatim>\<open>TypeError\<close> whose
  message names that argument, and for year, month and hour its position (pos 1, pos 2,
  pos 4); the position printed for day is left open. When an argument before the first
  non-integer one is absent, the dependency error of the broken link is raised instead.
\<close>

theorem type_errors:
  "(\<not> (isinstance_int year \<or> year = PyNone) \<longrightarrow>
      measured_pwv year month day hour w =
        (Inl (TypeError ''Argument 'year' (pos 1) must be an integer.''), w) \<and>
      modeled_pwv year month day hour w =
        (Inl (TypeError ''Argument 'year' (pos 1) must be an integer.''), w)) \<and>
   (isinstance_int year \<and> \<not> (isinstance_int month \<or> month = PyNone) \<longrightarrow>
      measured_pwv year month day hour w =
        (Inl (TypeError ''Argument 'month' (pos 2) must be an integer.''), w) \<and>
      modeled_pwv year month day hour w =
        (Inl (TypeError ''Argument 'month' (pos 2) must be an integer.''), w)) \<and>
   (isinstance_int year \<and> isinstance_int month \<and> \<not> (isinstance_int day \<or> day = PyNone) \<longrightarrow>
      (\<exists>pos. measured_pwv year month day hour w =
          (Inl (TypeError (''Argument 'day' (pos '' @ pos @ '') must be an integer.'')), w) \<and>
        modeled_pwv year month day hour w =
          (Inl (TypeError (''Argument 'day' (pos '' @ pos @ '') must be an integer.'')), w))) \<and>
   (isinstance_int year \<and> isinstance_int month \<and> isinstance_int day \<and>
    \<not> (isinstance_int hour \<or> hour = PyNone) \<longrightarrow>
      measured_pwv year month day hour w =
        (Inl (TypeError ''Argument 'hour' (pos 4) must be an integer.''), w) \<and>
      modeled_pwv year month day hour w =
        (Inl (TypeError ''Argument 'hour' (pos 4) must be an integer.''), w)) \<and>
   ((year = PyNone \<and> \<not> (isinstance_int month \<or> month = PyNone)) \<or>
    ((isinstance_int year \<or> year = PyNone) \<and> (isinstance_int month \<or> month = PyNone) \<and>
     (year = PyNone \<or> month = PyNone) \<and> \<not> (isinstance_int day \<or> day = PyNone)) \<or>
    ((isinstance_int year \<or> year = PyNone) \<and> (isinstance_int month \<or> month = PyNone) \<and>
     (isinstance_int day \<or> day = PyNone) \<and>
     (year = PyNone \<or> month = PyNone \<or> day = PyNone) \<and>
     \<not> (isinstance_int hour \<or> hour = PyNone)) \<longrightarrow>
      (\<exists>msg. measured_pwv year month day hour w = (Inl (ValueError msg), w) \<and>
             modeled_pwv year month day hour w = (Inl (ValueError msg), w))) \<and>
   (\<not> (isinstance_int year \<or> year = PyNone) \<or> \<not> (isinstance_int month \<or> month = PyNone) \<or>
    \<not> (isinstance_int day \<or> day = PyNone) \<or> \<not> (isinstance_int hour \<or> hour = PyNone) \<longrightarrow>
      (\<exists>e. measured_pwv year month day hour w = (Inl e, w) \<and>
           modeled_pwv year month day hour w = (Inl e, w)))"
proof -
  have year_type: "\<not> (isinstance_int year \<or> year = PyNone) \<longrightarrow>
      measured_pwv year month day hour w =
        (Inl (TypeError ''Argument 'year' (pos 1) must be an integer.''), w) \<and>
      modeled_pwv year month day hour w =
        (Inl (TypeError ''Argument 'year' (pos 1) must be an integer.''), w)"
  proof
    assume "\<not> (isinstance_int year \<or> year = PyNone)"
    then show "measured_pwv year month day hour w =
        (Inl (TypeError ''Argument 'year' (pos 1) must be an integer.''), w) \<and>
      modeled_pwv year month day hour w =
        (Inl (TypeError ''Argument 'year' (pos 1) must be an integer.''), w)"
      by (rule check_args_fails [OF check_year_type])
  qed
  have month_type: "isinstance_int year \<and> \<not> (isinstance_int month \<or> month = PyNone) \<longrightarrow>
      measured_pwv year month day hour w =
        (Inl (TypeError ''Argument 'month' (pos 2) must be an integer.''), w) \<and>
      modeled_pwv year month day hour w =
        (Inl (TypeError ''Argument 'month' (pos 2) must be an integer.''), w)"
  proof
    assume a: "isinstance_int year \<and> \<not> (isinstance_int month \<or> month = PyNone)"
    show "measured_pwv year month day hour w =
        (Inl (TypeError ''Argument 'month' (pos 2) must be an integer.''), w) \<and>
      modeled_pwv year month day hour w =
        (Inl (TypeError ''Argument 'month' (pos 2) must be an integer.''), w)"
      by (rule check_args_fails [OF check_month_type]) (insert a, simp_all)
  qed
  have day_type: "isinstance_int year \<and> isinstance_int month \<and>
      \<not> (isinstance_int day \<or> day = PyNone) \<longrightarrow>
      (\<exists>pos. measured_pwv year month day hour w =
          (Inl (TypeError (''Argument 'day' (pos '' @ pos @ '') must be an integer.'')), w) \<and>
        modeled_pwv year month day hour w =
          (Inl (TypeError (''Argument 'day' (pos '' @ pos @ '') must be an integer.'')), w))"
  proof
    assume a: "isinstance_int year \<and> isinstance_int month \<and>
      \<not> (isinstance_int day \<or> day = PyNone)"
    have "measured_pwv year month day hour w =
          (Inl (TypeError ''Argument 'day' (pos 2) must be an integer.''), w) \<and>
        modeled_pwv year month day hour w =
          (Inl (TypeError ''Argument 'day' (pos 2) must be an integer.''), w)"
      by (rule check_args_fails [OF check_day_type]) (insert a, simp_all)
    then show "\<exists>pos. measured_pwv year month day hour w =
          (Inl (TypeError (''Argument 'day' (pos '' @ pos @ '') must be an integer.'')), w) \<and>
        modeled_pwv year month day hour w =
          (Inl (TypeError (''Argument 'day' (pos '' @ pos @ '') must be an integer.'')), w)"
      by (intro exI [of _ "''2''"]) simp
  qed
  have hour_type: "isinstance_int year \<and> isinstance_int month \<and> isinstance_int day \<and>
    \<not> (isinstance_int hour \<or> hour = PyNone) \<longrightarrow>
      measured_pwv year month day hour w =
        (Inl (TypeError ''Argument 'hour' (pos 4) must be an integer.''), w) \<and>
      modeled_pwv year month day hour w =
        (Inl (TypeError ''Argument 'hour' (pos 4) must be an integer.''), w)"
  proof
    assume a: "isinstance_int year \<and> isinstance_int month \<and> isinstance_int day \<and>
      \<not> (isinstance_int hour \<or> hour = PyNone)"
    show "measured_pwv year month day hour w =
        (Inl (TypeError ''Argument 'hour' (pos 4) must be an integer.''), w) \<and>
      modeled_pwv year month day hour w =
        (Inl (TypeError ''Argument 'hour' (pos 4) must be an integer.''), w)"
      by (rule check_args_fails [OF check_hour_type]) (insert a, simp_all)
  qed
  have absent: "(year = PyNone \<and> \<not> (isinstance_int month \<or> month = PyNone)) \<or>
    ((isinstance_int year \<or> year = PyNone) \<and> (isinstance_int month \<or> month = PyNone) \<and>
     (year = PyNone \<or> month = PyNone) \<and> \<not> (isinstance_int day \<or> day = PyNone)) \<or>
    ((isinstance_int year \<or> year = PyNone) \<and> (isinstance_int month \<or> month = PyNone) \<and>
     (isinstance_int day \<or> day = PyNone) \<and>
     (year = PyNone \<or> month = PyNone \<or> day = PyNone) \<and>
     \<not> (isinstance_int hour \<or> hour = PyNone)) \<longrightarrow>
      (\<exists>msg. measured_pwv year month day hour w = (Inl (ValueError msg), w) \<and>
             modeled_pwv year month day hour w = (Inl (ValueError msg), w))"
  proof
    assume "(year = PyNone \<and> \<not> (isinstance_int month \<or> month = PyNone)) \<or>
      ((isinstance_int year \<or> year = PyNone) \<and> (isinstance_int month \<or> month = PyNone) \<and>
       (year = PyNone \<or> month = PyNone) \<and> \<not> (isinstance_int day \<or> day = PyNone)) \<or>
      ((isinstance_int year \<or> year = PyNone) \<and> (isinstance_int month \<or> month = PyNone) \<and>
       (isinstance_int day \<or> day = PyNone) \<and>
       (year = PyNone \<or> month = PyNone \<or> day = PyNone) \<and>
       \<not> (isinstance_int hour \<or> hour = PyNone))"
    then have "\<exists>msg. check_args year month day hour = Some (ValueError msg)"
      by (rule check_absent_before_non_integer)
    then obtain msg where c: "check_args year month day hour = Some (ValueError msg)" ..
    show "\<exists>msg. measured_pwv year month day hour w = (Inl (ValueError msg), w) \<and>
             modeled_pwv year month day hour w = (Inl (ValueError msg), w)"
      by (rule exI [of _ msg]) (rule check_args_fails [OF c])
  qed
  have fails: "\<not> (isinstance_int year \<or> year = PyNone) \<or>
    \<not> (isinstance_int month \<or> month = PyNone) \<or>
    \<not> (isinstance_int day \<or> day = PyNone) \<or> \<not> (isinstance_int hour \<or> hour = PyNone) \<longrightarrow>
      (\<exists>e. measured_pwv year month day hour w = (Inl e, w) \<and>
           modeled_pwv year month day hour w = (Inl e, w))"
  proof
    assume "\<not> (isinstance_int year \<or> year = PyNone) \<or>
      \<not> (isinstance_int month \<or> month = PyNone) \<or>
      \<not> (isinstance_int day \<or> day = PyNone) \<or> \<not> (isinstance_int hour \<or> hour = PyNone)"
    then have "\<exists>e. check_args year month day hour = Some e"
      by (rule check_non_integer)
    then obtain e where c: "check_args year month day hour = Some e" ..
    show "\<exists>e. measured_pwv year month day hour w = (Inl e, w) \<and>
           modeled_pwv year month day hour w = (Inl e, w)"
      by (rule exI [of _ e]) (rule check_args_fails [OF c])
  qed
  from year_type month_type day_type hour_type absent fails show ?thesis
    by (intro conjI)
qed

theorem type_errors_witness:
  "measured_pwv (PyStr ''2011'') PyNone PyNone PyNone example_world =
     (Inl (TypeError ''Argument 'year' (pos 1) must be an integer.''), example_world) \<and>
   modeled_pwv (PyInt 2011) (PyFloat 5.5) PyNone PyNone example_world =
     (Inl (TypeError ''Argument 'month' (pos 2) must be an integer.''), example_world) \<and>
   (\<exists>pos. measured_pwv (PyInt 2011) (PyInt 5) (PyStr ''3'') PyNone example_world =
        (Inl (TypeError (''Argument 'day' (pos '' @ pos @ '') must be an integer.'')), example_world) \<and>
      modeled_pwv (PyInt 2011) (PyInt 5) (PyStr ''3'') PyNone example_world =
        (Inl (TypeError (''Argument 'day' (pos '' @ pos @ '') must be an integer.'')), example_world)) \<and>
   measured_pwv (PyInt 2011) (PyInt 5) (PyInt 3) (PyStr ''4'') example_world =
     (Inl (TypeError ''Argument 'hour' (pos 4) must be an integer.''), example_world) \<and>
   (\<exists>msg. measured_pwv PyNone (PyStr ''5'') PyNone PyNone example_world =
        (Inl (ValueError msg), example_world) \<and>
      modeled_pwv PyNone (PyStr ''5'') PyNone PyNone example_world =
        (Inl (ValueError msg), example_world)) \<and>
   (\<exists>e. measured_pwv (PyInt 2011) PyNone PyNone (PyFloat 4.5) example_world = (Inl e, example_world) \<and>
      modeled_pwv (PyInt 2011) PyNone PyNone (PyFloat 4.5) example_world = (Inl e, example_world))"
proof -
  have year: "\<not> (isinstance_int (PyStr ''2011'') \<or> PyStr ''2011'' = PyNone)"
    by (simp add: isinstance_int_def)
  have month: "isinstance_int (PyInt 2011) \<and> \<not> (isinstance_int (PyFloat 5.5) \<or> PyFloat 5.5 = PyNone)"
    by (simp add: isinstance_int_def)
  have day: "isinstance_int (PyInt 2011) \<and> isinstance_int (PyInt 5) \<and>
      \<not> (isinstance_int (PyStr ''3'') \<or> PyStr ''3'' = PyNone)"
    by (simp add: isinstance_int_def)
  have hour: "isinstance_int (PyInt 2011) \<and> isinstance_int (PyInt 5) \<and> isinstance_int (PyInt 3) \<and>
      \<not> (isinstance_int (PyStr ''4'') \<or> PyStr ''4'' = PyNone)"
    by (simp add: isinstance_int_def)
  have absent: "(PyNone = PyNone \<and> \<not> (isinstance_int (PyStr ''5'') \<or> PyStr ''5'' = PyNone)) \<or>
    ((isinstance_int PyNone \<or> PyNone = PyNone) \<and> (isinstance_int (PyStr ''5'') \<or> PyStr ''5'' = PyNone) \<and>
     (PyNone = PyNone \<or> PyStr ''5'' = PyNone) \<and> \<not> (isinstance_int PyNone \<or> PyNone = PyNone)) \<or>
    ((isinstance_int PyNone \<or> PyNone = PyNone) \<and> (isinstance_int (PyStr ''5'') \<or> PyStr ''5'' = PyNone) \<and>
     (isinstance_int PyNone \<or> PyNone = PyNone) \<and>
     (PyNone = PyNone \<or> PyStr ''5'' = PyNone \<or> PyNone = PyNone) \<and>
     \<not> (isinstance_int PyNone \<or> PyNone = PyNone))"
    by (simp add: isinstance_int_def)
  have non_integer: "\<not> (isinstance_int (PyInt 2011) \<or> PyInt 2011 = PyNone) \<or>
      \<not> (isinstance_int PyNone \<or> PyNone = PyNone) \<or>
      \<not> (isinstance_int PyNone \<or> PyNone = PyNone) \<or>
      \<not> (isinstance_int (PyFloat 4.5) \<or> PyFloat 4.5 = PyNone)"
    by (simp add: isinstance_int_def)
  note y = type_errors [of "PyStr ''2011''" PyNone PyNone PyNone example_world,
      THEN conjunct1, THEN mp, OF year, THEN conjunct1]
  note m = type_errors [of "PyInt 2011" "PyFloat 5.5" PyNone PyNone example_world,
      THEN conjunct2, THEN conjunct1, THEN mp, OF month, THEN conjunct2]
  note d = type_errors [of "PyInt 2011" "PyInt 5" "PyStr ''3''" PyNone example_world,
      THEN conjunct2, THEN conjunct2, THEN conjunct1, THEN mp, OF day]
  note h = type_errors [of "PyInt 2011" "PyInt 5" "PyInt 3" "PyStr ''4''" example_world,
      THEN conjunct2, THEN conjunct2, THEN conjunct2, THEN conjunct1, THEN mp, OF hour,
      THEN conjunct1]
  note a = type_errors [of PyNone "PyStr ''5''" PyNone PyNone example_world,
      THEN conjunct2, THEN conjunct2, THEN conjunct2, THEN conjunct2, THEN conjunct1, THEN mp,
      OF absent]
  note f = type_errors [of "PyInt 2011" PyNone PyNone "PyFloat 4.5" example_world,
      THEN conjunct2, THEN conjunct2, THEN conjunct2, THEN conjunct2, THEN conjunct2, THEN mp,
      OF non_integer]
  from y m d h a f show ?thesis by (intro conjI)
qed

text \<open>
  The claim as first stated promises a \<^verbatim>\<open>TypeError\<close> for every non-integer argument. A
  non-integer month without a year fails the dependency check, which comes first.
\<close>

theorem type_error_masked_by_dependency_error:
  "fst (measured_pwv PyNone (PyStr ''5'') PyNone PyNone example_world) =
     Inl (ValueError ''Argument 'month' (pos 2) specified without 'year' (pos 1).'')"
  by (simp add: measured_pwv_def check_args_def isinstance_int_def)

text \<open>
  The message for a non-integer day says ``pos 2''; day is the third argument, and the
  dependency messages of the same functions say ``'day' (pos 3)''.
\<close>

lemma day_type_error_names_position_two:
  "fst (measured_pwv (PyInt 2011) (PyInt 5) (PyStr ''3'') PyNone example_world) =
     Inl (TypeError ''Argument 'day' (pos 2) must be an integer.'') \<and>
   fst (modeled_pwv (PyInt 2011) (PyInt 5) (PyStr ''3'') PyNone example_world) =
     Inl (TypeError ''Argument 'day' (pos 2) must be an integer.'')"
  by (simp add: measured_pwv_def modeled_pwv_def check_args_def isinstance_int_def)

subsection \<open>The argument checks of \<^verbatim>\<open>transmission\<close>\<close>

text \<open>
  Claim C8. When \<open>date\<close> is not a datetime, or \<open>airmass\<close> is neither an \<^verbatim>\<open>int\<close> nor a
  \<^verbatim>\<open>float\<close>, \<^verbatim>\<open>transmission\<close> fails with a \<^verbatim>\<open>TypeError\<close> that names the argument (\<open>date\<close> when
  both are wrong), and the world is returned as it was: its log of reads has no new entry,
  so no table and no directory was read.
\<close>

theorem transmission_type_errors_before_reading:
  "((\<forall>d. date \<noteq> PyDatetime d) \<longrightarrow>
      transmission date airmass w =
        (Inl (TypeError ''Argument 'date' (pos 1) must be a datetime instance''), w)) \<and>
   (date = PyDatetime d \<and> airmass_value airmass = None \<longrightarrow>
      transmission date airmass w =
        (Inl (TypeError ''Argument 'airmass' (pos 2) should be a float instance''), w))"
  by (cases date) (simp_all add: transmission_def)

theorem transmission_type_errors_before_reading_witness:
  "transmission (PyStr ''2016-01-01'') (PyInt 1) example_world =
     (Inl (TypeError ''Argument 'date' (pos 1) must be a datetime instance''), example_world) \<and>
   transmission (PyDatetime (example_date 1 0 0)) (PyStr ''1.2'') example_world =
     (Inl (TypeError ''Argument 'airmass' (pos 2) should be a float instance''), example_world)"
  using transmission_type_errors_before_reading
      [of "PyStr ''2016-01-01''" "PyInt 1" example_world]
    transmission_type_errors_before_reading
      [where date = "PyDatetime (example_date 1 0 0)" and d = "example_date 1 0 0"
         and airmass = "PyStr ''1.2''" and w = example_world]
  by (simp add: airmass_value_def)

subsection \<open>\<^verbatim>\<open>transmission\<close> only reads\<close>

lemma reads_onlyI:
  "(\<And>w. \<exists>s. \<forall>l. f (w\<lparr>reads := l\<rparr>) = (fst (f w), w\<lparr>reads := l @ s\<rparr>)) \<Longrightarrow> reads_only f"
  by (simp add: reads_only_def)

lemma reads_only_fst: "reads_only f \<Longrightarrow> fst (f (w\<lparr>reads := l\<rparr>)) = fst (f w)"
  unfolding reads_only_def by (metis fst_conv)

lemma reads_only_run:
  assumes "reads_only f"
  shows "\<exists>s. (\<forall>l. f (w\<lparr>reads := l\<rparr>) = (fst (f w), w\<lparr>reads := l @ s\<rparr>)) \<and>
             f w = (fst (f w), w\<lparr>reads := reads w @ s\<rparr>)"
proof -
  from assms obtain s where s: "\<And>l. f (w\<lparr>reads := l\<rparr>) = (fst (f w), w\<lparr>reads := l @ s\<rparr>)"
    unfolding reads_only_def by blast
  have eq: "w\<lparr>reads := reads w\<rparr> = w" by simp
  have "f (w\<lparr>reads := reads w\<rparr>) = (fst (f w), w\<lparr>reads := reads w @ s\<rparr>)" by (rule s)
  then have "f w = (fst (f w), w\<lparr>reads := reads w @ s\<rparr>)" unfolding eq .
  with s show ?thesis by blast
qed

lemma reads_only_snd: "reads_only f \<Longrightarrow> \<exists>s. snd (f w) = w\<lparr>reads := reads w @ s\<rparr>"
  using reads_only_run [of f w] by (metis snd_conv)

lemma reads_only_again:
  assumes "reads_only f" and "f w = (r, w')"
  shows "fst (f w') = r \<and> w' = w\<lparr>reads := reads w'\<rparr>"
proof -
  from reads_only_snd [OF assms(1), of w] assms(2)
  obtain s where w': "w' = w\<lparr>reads := reads w @ s\<rparr>" by auto
  then have "fst (f w') = fst (f w)" using reads_only_fst [OF assms(1)] by simp
  with assms(2) w' show ?thesis by simp
qed

lemma reads_only_return: "reads_only (\<lambda>w. (r, w))"
  by (rule reads_onlyI) (auto intro: exI [of _ "[]"])

lemma reads_only_bind:
  assumes f: "reads_only f" and g: "\<And>x. reads_only (g x)"
  shows "reads_only (\<lambda>w. case f w of (Inl e, w') \<Rightarrow> (Inl e, w') | (Inr x, w') \<Rightarrow> g x w')"
proof (rule reads_onlyI)
  fix w
  from reads_only_run [OF f, of w]
  obtain s where s: "\<And>l. f (w\<lparr>reads := l\<rparr>) = (fst (f w), w\<lparr>reads := l @ s\<rparr>)"
    and fw: "f w = (fst (f w), w\<lparr>reads := reads w @ s\<rparr>)"
    by blast
  show "\<exists>s. \<forall>l. (case f (w\<lparr>reads := l\<rparr>) of (Inl e, w') \<Rightarrow> (Inl e, w') | (Inr x, w') \<Rightarrow> g x w') =
      (fst (case f w of (Inl e, w') \<Rightarrow> (Inl e, w') | (Inr x, w') \<Rightarrow> g x w'), w\<lparr>reads := l @ s\<rparr>)"
  proof (cases "fst (f w)")
    case (Inl e)
    with s fw show ?thesis by (intro exI [of _ s]) (simp add: split_beta)
  next
    case (Inr x)
    from g [of x] obtain t where
      t: "\<And>l. g x (w\<lparr>reads := l\<rparr>) = (fst (g x w), w\<lparr>reads := l @ t\<rparr>)"
      unfolding reads_only_def by blast
    have "\<And>l. (case f (w\<lparr>reads := l\<rparr>) of (Inl e, w') \<Rightarrow> (Inl e, w') | (Inr x, w') \<Rightarrow> g x w') =
        (fst (g x w), w\<lparr>reads := l @ s @ t\<rparr>)"
      using s Inr t [of "_ @ s"] by simp
    moreover have "fst (case f w of (Inl e, w') \<Rightarrow> (Inl e, w') | (Inr x, w') \<Rightarrow> g x w') = fst (g x w)"
      using fw Inr t [of "reads w @ s"] by (metis (no_types, lifting) case_prod_conv fst_conv sum.case(2))
    ultimately show ?thesis by (intro exI [of _ "s @ t"]) simp
  qed
qed

lemma reads_only_Table_read_modeled: "reads_only Table_read_modeled"
  by (rule reads_onlyI)
    (auto simp add: Table_read_modeled_def Let_def split: option.splits
       intro!: exI [of _ "[os_path_join PWV_TAB_DIR ''modeled_pwv.csv'']"])

lemma reads_only_data:
  assumes k: "\<And>w l. k (w\<lparr>reads := l\<rparr>) = k w" and h: "\<And>v. reads_only (h v)"
  shows "reads_only (\<lambda>w. h (k w) w)"
proof (rule reads_onlyI)
  fix w
  from reads_only_run [OF h, of "k w" w]
  obtain s where "\<And>l. h (k w) (w\<lparr>reads := l\<rparr>) = (fst (h (k w) w), w\<lparr>reads := l @ s\<rparr>)"
    by blast
  then have "\<forall>l. h (k (w\<lparr>reads := l\<rparr>)) (w\<lparr>reads := l\<rparr>) = (fst (h (k w) w), w\<lparr>reads := l @ s\<rparr>)"
    by (simp add: k)
  then show "\<exists>s. \<forall>l. h (k (w\<lparr>reads := l\<rparr>)) (w\<lparr>reads := l\<rparr>) = (fst (h (k w) w), w\<lparr>reads := l @ s\<rparr>)" ..
qed

lemma reads_only_Table_read_atm: "reads_only (Table_read_atm path)"
  by (rule reads_onlyI)
    (auto simp add: Table_read_atm_def Let_def split: option.splits intro!: exI [of _ "[path]"])

lemma reads_only_os_listdir_atm: "reads_only os_listdir_atm"
  by (rule reads_onlyI)
    (auto simp add: os_listdir_atm_def Let_def split: option.splits intro!: exI [of _ "[ATM_MOD_DIR]"])

lemma reads_only_pwv_z: "reads_only (pwv_z date)"
  unfolding pwv_z_def [abs_def]
proof (rule reads_only_bind [OF reads_only_Table_read_modeled])
  fix pwv_model :: "(real, real) table"
  show "reads_only (\<lambda>w'. (np_interp (timestamp w' date) (map fst (rows pwv_model))
      (map snd (rows pwv_model)), w'))"
    by (rule reads_only_data [where k = "\<lambda>w. timestamp w date"
          and h = "\<lambda>t w. (np_interp t (map fst (rows pwv_model)) (map snd (rows pwv_model)), w)"])
      (simp_all add: reads_only_return)
qed

lemma reads_only_pwv_los: "reads_only (pwv_los date airmass)"
  unfolding pwv_los_def [abs_def]
  by (rule reads_only_bind [OF reads_only_pwv_z]) (rule reads_only_return)

lemma reads_only_read_atm_mods: "reads_only (read_atm_mods files mods)"
proof (induction files arbitrary: mods)
  case Nil
  have "read_atm_mods [] mods = (\<lambda>w. (Inr mods, w))" by (rule ext) simp
  then show ?case by (simp only: reads_only_return)
next
  case (Cons name files)
  let ?parts = "py_index (py_split CHR ''_'' (os_path_basename name)) 3"
  let ?step = "\<lambda>v w. case v of
        None \<Rightarrow> (Inl (ValueError ''could not convert string to float''), w)
      | Some pwv_value \<Rightarrow>
          (case Table_read_atm (os_path_join ATM_MOD_DIR name) w of
             (Inl e, w') \<Rightarrow> (Inl e, w')
           | (Inr tab, w') \<Rightarrow> read_atm_mods files (AList.update pwv_value tab mods) w')"
  have step: "reads_only (?step v)" for v
  proof (cases v)
    case None
    then show ?thesis by (simp add: reads_only_return)
  next
    case (Some pwv_value)
    have "reads_only (\<lambda>w. case Table_read_atm (os_path_join ATM_MOD_DIR name) w of
             (Inl e, w') \<Rightarrow> (Inl e, w')
           | (Inr tab, w') \<Rightarrow> read_atm_mods files (AList.update pwv_value tab mods) w')"
      by (rule reads_only_bind [OF reads_only_Table_read_atm]) (rule Cons.IH)
    with Some show ?thesis by simp
  qed
  show ?case
  proof (cases "endswith name ''.csv''")
    case False
    then have "read_atm_mods (name # files) mods = read_atm_mods files mods"
      by (rule_tac ext) simp
    then show ?thesis by (simp only: Cons.IH)
  next
    case True
    show ?thesis
    proof (cases ?parts)
      case (Inl e)
      with True have "read_atm_mods (name # files) mods = (\<lambda>w. (Inl e, w))"
        by (rule_tac ext) simp
      then show ?thesis by (simp only: reads_only_return)
    next
      case (Inr s)
      with True have "read_atm_mods (name # files) mods = (\<lambda>w. ?step (py_float w s) w)"
        by (rule_tac ext) simp
      moreover have "reads_only (\<lambda>w. ?step (py_float w s) w)"
        by (rule reads_only_data [where k = "\<lambda>w. py_float w s" and h = ?step]) (simp_all add: step)
      ultimately show ?thesis by (simp only:)
    qed
  qed
qed

lemma reads_only_atm_mods: "reads_only atm_mods"
  unfolding atm_mods_def [abs_def]
  by (rule reads_only_bind [OF reads_only_os_listdir_atm]) (rule reads_only_read_atm_mods)

lemma reads_only_transmission: "reads_only (transmission date airmass)"
proof (cases date)
  case (PyDatetime d)
  show ?thesis
  proof (cases "airmass_value airmass")
    case None
    with PyDatetime have "transmission date airmass =
        (\<lambda>w. (Inl (TypeError ''Argument 'airmass' (pos 2) should be a float instance''), w))"
      by (rule_tac ext) (simp add: transmission_def)
    then show ?thesis by (simp only: reads_only_return)
  next
    case (Some a)
    with PyDatetime have "transmission date airmass =
        (\<lambda>w. case pwv_los d a w of
                 (Inl e, w') \<Rightarrow> (Inl e, w')
               | (Inr los, w') \<Rightarrow>
                  (case atm_mods w' of
                     (Inl e, w'') \<Rightarrow> (Inl e, w'')
                   | (Inr mods, w'') \<Rightarrow> (trans_func los mods, w'')))"
      by (rule_tac ext) (simp add: transmission_def)
    moreover have "reads_only \<dots>"
    proof (rule reads_only_bind [OF reads_only_pwv_los])
      fix los
      show "reads_only (\<lambda>w'. case atm_mods w' of
                     (Inl e, w'') \<Rightarrow> (Inl e, w'')
                   | (Inr mods, w'') \<Rightarrow> (trans_func los mods, w''))"
        by (rule reads_only_bind [OF reads_only_atm_mods]) (rule reads_only_return)
    qed
    ultimately show ?thesis by (simp only:)
  qed
next
  case PyNone
  then have "transmission date airmass =
        (\<lambda>w. (Inl (TypeError ''Argument 'date' (pos 1) must be a datetime instance''), w))"
    by (rule_tac ext) (simp add: transmission_def)
  then show ?thesis by (simp only: reads_only_return)
next
  case (PyInt n)
  then have "transmission date airmass =
        (\<lambda>w. (Inl (TypeError ''Argument 'date' (pos 1) must be a datetime instance''), w))"
    by (rule_tac ext) (simp add: transmission_def)
  then show ?thesis by (simp only: reads_only_return)
next
  case (PyFloat r)
  then have "transmission date airmass =
        (\<lambda>w. (Inl (TypeError ''Argument 'date' (pos 1) must be a datetime instance''), w))"
    by (rule_tac ext) (simp add: transmission_def)
  then show ?thesis by (simp only: reads_only_return)
next
  case (PyStr s)
  then have "transmission date airmass =
        (\<lambda>w. (Inl (TypeError ''Argument 'date' (pos 1) must be a datetime instance''), w))"
    by (rule_tac ext) (simp add: transmission_def)
  then show ?thesis by (simp only: reads_only_return)
qed

lemmas trans_defs = transmission_def airmass_value_def pwv_los_def pwv_z_def Table_read_modeled_def
  os_path_join_def PWV_TAB_DIR_def ATM_MOD_DIR_def np_interp_def atm_mods_def os_listdir_atm_def
  Table_read_atm_def endswith_def os_path_basename_def py_index_def trans_func_def py_min_def
  dict_get_def bind_err_def

lemma example_transmission:
  "transmission (PyDatetime (example_date 1 8 20)) (PyFloat 0.5) example_world =
     (Inr [(7000, 0.8), (7001, 0.7)],
      example_world\<lparr>reads := [''./pwv_tables/modeled_pwv.csv'', ''./atm_models'',
         ''./atm_models/atm_model_pwv_4.0_.csv'', ''./atm_models/atm_model_pwv_6.0_.csv'']\<rparr>)"
  by (simp add: example_world_def example_date_def trans_defs enumerate_eq_zip upt_rec)

text \<open>
  Claim C9. A call of \<^verbatim>\<open>transmission\<close> changes nothing but the log of reads, and its result
  does not depend on that log: the same call repeated on the world the first call left, or on
  any world with the same tables, directory listing and library functions, gives the same
  output, row for row.
\<close>

theorem transmission_repeatable:
  "transmission date airmass w = (out, w') \<Longrightarrow>
     fst (transmission date airmass w') = out \<and>
     w' = w\<lparr>reads := reads w'\<rparr> \<and>
     fst (transmission date airmass (w\<lparr>reads := l\<rparr>)) = out"
proof -
  assume run: "transmission date airmass w = (out, w')"
  have ro: "reads_only (transmission date airmass)" by (rule reads_only_transmission)
  from reads_only_again [OF ro run]
  have "fst (transmission date airmass w') = out" and "w' = w\<lparr>reads := reads w'\<rparr>"
    by simp_all
  moreover from reads_only_fst [OF ro] run
  have "fst (transmission date airmass (w\<lparr>reads := l\<rparr>)) = out" by simp
  ultimately show ?thesis by (intro conjI)
qed

theorem transmission_repeatable_witness:
  "fst (transmission (PyDatetime (example_date 1 8 20)) (PyFloat 0.5)
     (example_world\<lparr>reads := [''./pwv_tables/modeled_pwv.csv'', ''./atm_models'',
         ''./atm_models/atm_model_pwv_4.0_.csv'', ''./atm_models/atm_model_pwv_6.0_.csv'']\<rparr>)) =
   Inr [(7000, 0.8), (7001, 0.7)]"
  using transmission_repeatable [OF example_transmission] by simp

subsection \<open>\<^verbatim>\<open>np.interp\<close> on ascending sample points\<close>

lemma interp_segment_hit:
  "sorted_wrt (<) (map fst ps) \<Longrightarrow> Suc i < length ps \<Longrightarrow>
   fst (ps ! i) \<le> x \<Longrightarrow> x < fst (ps ! Suc i) \<Longrightarrow>
   interp_segment x ps =
     snd (ps ! i) + (x - fst (ps ! i)) * (snd (ps ! Suc i) - snd (ps ! i)) / (fst (ps ! Suc i) - fst (ps ! i))"
proof (induction x ps arbitrary: i rule: interp_segment.induct)
  case (1 x x0 y0 x1 y1 ps)
  show ?case
  proof (cases i)
    case 0
    with "1.prems" show ?thesis by simp
  next
    case (Suc k)
    with "1.prems" have "x1 \<le> fst (((x1, y1) # ps) ! k)"
      by (cases k) (auto simp add: less_imp_le dest: nth_mem [of _ ps])
    with "1.prems" Suc have "x1 \<le> x" by simp
    moreover from "1.prems" Suc have "sorted_wrt (<) (map fst ((x1, y1) # ps))" by simp
    ultimately show ?thesis using "1.IH" [of k] "1.prems" Suc by simp
  qed
qed simp_all

lemma interp_segment_last:
  "sorted_wrt (<) (map fst ps) \<Longrightarrow> ps \<noteq> [] \<Longrightarrow> fst (last ps) \<le> x \<Longrightarrow>
   interp_segment x ps = snd (last ps)"
proof (induction x ps rule: interp_segment.induct)
  case (1 x x0 y0 x1 y1 ps)
  then have "x1 \<le> fst (last ((x1, y1) # ps))"
    by (cases "ps = []") (auto simp add: less_imp_le)
  with 1 show ?case by simp
qed simp_all

lemma interp_segment_first:
  "ps \<noteq> [] \<Longrightarrow> x = fst (hd ps) \<Longrightarrow> sorted_wrt (<) (map fst ps) \<Longrightarrow>
   interp_segment x ps = snd (hd ps)"
  by (induction x ps rule: interp_segment.induct) auto

lemma sorted_hd_le_nth:
  assumes "sorted_wrt (<) (xp :: real list)" "i < length xp"
  shows "hd xp \<le> xp ! i"
proof -
  from assms have "xp \<noteq> []" by auto
  then have hd: "hd xp = xp ! 0" by (rule hd_conv_nth)
  show ?thesis
  proof (cases "i = 0")
    case False
    with assms have "xp ! 0 < xp ! i" by (simp add: sorted_wrt_nth_less)
    with hd show ?thesis by simp
  qed (simp add: hd)
qed

lemma sorted_nth_le_last:
  assumes "sorted_wrt (<) (xp :: real list)" "i < length xp"
  shows "xp ! i \<le> last xp"
proof -
  from assms have "xp \<noteq> []" by auto
  then have last: "last xp = xp ! (length xp - 1)" by (rule last_conv_nth)
  show ?thesis
  proof (cases "i = length xp - 1")
    case False
    with assms have "xp ! i < xp ! (length xp - 1)" by (simp add: sorted_wrt_nth_less)
    with last show ?thesis by simp
  qed (simp add: last)
qed

lemma np_interp_left:
  assumes "xp \<noteq> []" "length fp = length xp" "sorted_wrt (<) xp" "x \<le> hd xp"
  shows "np_interp x xp fp = Inr (hd fp)"
proof -
  from assms have le: "hd xp \<le> last xp"
    using sorted_nth_le_last [of xp 0] by (simp add: hd_conv_nth)
  from assms have zip: "zip xp fp \<noteq> []" "map fst (zip xp fp) = xp" "hd (zip xp fp) = (hd xp, hd fp)"
    by (cases xp; cases fp; simp)+
  show ?thesis
  proof (cases "x < hd xp")
    case True
    with assms le show ?thesis by (simp add: np_interp_def)
  next
    case False
    with assms have "x = hd xp" by simp
    with assms le zip interp_segment_first [of "zip xp fp" x] show ?thesis
      by (simp add: np_interp_def)
  qed
qed

lemma np_interp_right:
  assumes "xp \<noteq> []" "length fp = length xp" "sorted_wrt (<) xp" "last xp \<le> x"
  shows "np_interp x xp fp = Inr (last fp)"
proof -
  from assms have le: "hd xp \<le> last xp"
    using sorted_nth_le_last [of xp 0] by (simp add: hd_conv_nth)
  from assms have "fp \<noteq> []" by auto
  with assms have zip: "zip xp fp \<noteq> []" "map fst (zip xp fp) = xp"
    "last (zip xp fp) = (last xp, last fp)"
    by (simp_all add: last_zip)
  show ?thesis
  proof (cases "last xp < x")
    case True
    with assms show ?thesis by (simp add: np_interp_def)
  next
    case False
    with assms le zip interp_segment_last [of "zip xp fp" x] show ?thesis
      by (simp add: np_interp_def)
  qed
qed

lemma np_interp_inside:
  assumes "length fp = length xp" "sorted_wrt (<) xp" "Suc i < length xp"
    and "xp ! i \<le> x" "x < xp ! Suc i"
  shows "np_interp x xp fp =
    Inr (fp ! i + (x - xp ! i) * (fp ! Suc i - fp ! i) / (xp ! Suc i - xp ! i))"
proof -
  from assms have "hd xp \<le> x"
    using sorted_hd_le_nth [of xp i] by simp
  moreover from assms have "x \<le> last xp"
    using sorted_nth_le_last [of xp "Suc i"] by simp
  moreover from assms have "map fst (zip xp fp) = xp" by simp
  moreover from assms have "xp \<noteq> []" by auto
  ultimately show ?thesis
    using assms interp_segment_hit [of "zip xp fp" i x] by (simp add: np_interp_def)
qed

lemma np_interp_between:
  assumes "length fp = length xp" "sorted_wrt (<) xp" "Suc i < length xp"
    and "xp ! i \<le> x" "x \<le> xp ! Suc i"
  shows "np_interp x xp fp =
    Inr (fp ! i + (x - xp ! i) * (fp ! Suc i - fp ! i) / (xp ! Suc i - xp ! i))"
proof (cases "x < xp ! Suc i")
  case True
  with assms show ?thesis by (simp add: np_interp_inside)
next
  case False
  with assms have x: "x = xp ! Suc i" by simp
  from assms have "xp ! i < xp ! Suc i" by (simp add: sorted_wrt_nth_less)
  then have formula: "fp ! i + (x - xp ! i) * (fp ! Suc i - fp ! i) / (xp ! Suc i - xp ! i) = fp ! Suc i"
    by (simp add: x)
  show ?thesis
  proof (cases "Suc (Suc i) < length xp")
    case True
    with assms have "x < xp ! Suc (Suc i)" by (simp add: x sorted_wrt_nth_less)
    with assms True np_interp_inside [of fp xp "Suc i" x]
    have "np_interp x xp fp = Inr (fp ! Suc i)" by (simp add: x)
    then show ?thesis by (simp only: formula)
  next
    case False
    with assms have "Suc i = length xp - 1" by simp
    moreover from assms have ne: "xp \<noteq> []" "fp \<noteq> []" by auto
    ultimately have "last xp = x" "last fp = fp ! Suc i"
      using assms by (simp_all add: x last_conv_nth)
    with ne have "np_interp x xp fp = Inr (fp ! Suc i)"
      using assms np_interp_right [of xp fp x] by simp
    then show ?thesis by (simp only: formula)
  qed
qed

subsection \<open>The PWV at zenith and along the line of sight\<close>

lemma pwv_z_eq:
  "modeled_pwv_csv w = Some pwv_model \<Longrightarrow>
   pwv_z date w =
     (np_interp (timestamp w date) (map fst (rows pwv_model)) (map snd (rows pwv_model)),
      w\<lparr>reads := reads w @ [''./pwv_tables/modeled_pwv.csv'']\<rparr>)"
  by (simp add: pwv_z_def Table_read_modeled_def os_path_join_def PWV_TAB_DIR_def)

text \<open>
  Claim C3. For a modelled PWV series with at least one row and strictly ascending
  timestamps, the zenith PWV that \<^verbatim>\<open>transmission\<close> computes for a datetime is the piecewise
  linear interpolant of the series at the datetime's epoch coordinate: the first value at or
  before the first timestamp, the last value at or after the last timestamp, and between two
  neighbouring samples the value on the straight line through them. For the series
  \<open>(t0, 5)\<close>, \<open>(t0 + 1000, 15)\<close> and airmass 1 this gives 10 at \<open>t0 + 500\<close>, 5 at \<open>t0 - 100\<close>
  and 15 at \<open>t0 + 1100\<close>.
\<close>

theorem pwv_z_interpolates:
  assumes "modeled_pwv_csv w = Some pwv_model"
    and "rows pwv_model \<noteq> []"
    and "sorted_wrt (<) (map fst (rows pwv_model))"
  shows
    "(timestamp w date \<le> fst (hd (rows pwv_model)) \<longrightarrow>
        fst (pwv_z date w) = Inr (snd (hd (rows pwv_model)))) \<and>
     (fst (last (rows pwv_model)) \<le> timestamp w date \<longrightarrow>
        fst (pwv_z date w) = Inr (snd (last (rows pwv_model)))) \<and>
     (\<forall>i. Suc i < length (rows pwv_model) \<and>
          fst (rows pwv_model ! i) \<le> timestamp w date \<and>
          timestamp w date \<le> fst (rows pwv_model ! Suc i) \<longrightarrow>
        fst (pwv_z date w) =
          Inr (snd (rows pwv_model ! i) +
               (timestamp w date - fst (rows pwv_model ! i)) *
               (snd (rows pwv_model ! Suc i) - snd (rows pwv_model ! i)) /
               (fst (rows pwv_model ! Suc i) - fst (rows pwv_model ! i)))) \<and>
     (rows pwv_model = [(t0, 5), (t0 + 1000, 15)] \<longrightarrow>
        (timestamp w date = t0 + 500 \<longrightarrow> fst (pwv_los date 1 w) = Inr 10) \<and>
        (timestamp w date = t0 - 100 \<longrightarrow> fst (pwv_los date 1 w) = Inr 5) \<and>
        (timestamp w date = t0 + 1000 + 100 \<longrightarrow> fst (pwv_los date 1 w) = Inr 15))"
proof -
  let ?xp = "map fst (rows pwv_model)" and ?fp = "map snd (rows pwv_model)"
  let ?t = "timestamp w date"
  from assms have ne: "?xp \<noteq> []" and len: "length ?fp = length ?xp" by simp_all
  have z: "fst (pwv_z date w) = np_interp ?t ?xp ?fp"
    using assms(1) by (simp add: pwv_z_eq)
  have left: "?t \<le> fst (hd (rows pwv_model)) \<longrightarrow>
      fst (pwv_z date w) = Inr (snd (hd (rows pwv_model)))"
    using np_interp_left [OF ne len assms(3), of ?t] assms(2) by (simp add: z hd_map)
  have right: "fst (last (rows pwv_model)) \<le> ?t \<longrightarrow>
      fst (pwv_z date w) = Inr (snd (last (rows pwv_model)))"
    using np_interp_right [OF ne len assms(3), of ?t] assms(2) by (simp add: z last_map)
  have between: "\<forall>i. Suc i < length (rows pwv_model) \<and> fst (rows pwv_model ! i) \<le> ?t \<and>
          ?t \<le> fst (rows pwv_model ! Suc i) \<longrightarrow>
        fst (pwv_z date w) =
          Inr (snd (rows pwv_model ! i) +
               (?t - fst (rows pwv_model ! i)) *
               (snd (rows pwv_model ! Suc i) - snd (rows pwv_model ! i)) /
               (fst (rows pwv_model ! Suc i) - fst (rows pwv_model ! i)))"
  proof (intro allI impI)
    fix i
    assume i: "Suc i < length (rows pwv_model) \<and> fst (rows pwv_model ! i) \<le> ?t \<and>
          ?t \<le> fst (rows pwv_model ! Suc i)"
    then have "np_interp ?t ?xp ?fp =
        Inr (?fp ! i + (?t - ?xp ! i) * (?fp ! Suc i - ?fp ! i) / (?xp ! Suc i - ?xp ! i))"
      by (intro np_interp_between [OF len assms(3)]) simp_all
    with i show "fst (pwv_z date w) =
          Inr (snd (rows pwv_model ! i) +
               (?t - fst (rows pwv_model ! i)) *
               (snd (rows pwv_model ! Suc i) - snd (rows pwv_model ! i)) /
               (fst (rows pwv_model ! Suc i) - fst (rows pwv_model ! i)))"
      by (simp add: z)
  qed
  have example: "rows pwv_model = [(t0, 5), (t0 + 1000, 15)] \<longrightarrow>
        (?t = t0 + 500 \<longrightarrow> fst (pwv_los date 1 w) = Inr 10) \<and>
        (?t = t0 - 100 \<longrightarrow> fst (pwv_los date 1 w) = Inr 5) \<and>
        (?t = t0 + 1000 + 100 \<longrightarrow> fst (pwv_los date 1 w) = Inr 15)"
    using assms(1) by (simp add: pwv_los_def pwv_z_eq np_interp_def)
  from left right between example show ?thesis by (intro conjI)
qed

lemma example_pwv_model:
  "modeled_pwv_csv example_world =
     Some \<lparr>colnames = [''date'', ''pwv''], units = [], rows = [(3600, 5), (4600, 15)]\<rparr>"
  by (simp add: example_world_def)

lemma example_timestamp:
  "timestamp example_world (example_date h m s) = of_int (3600 * h + 60 * m + s)"
  by (simp add: example_world_def example_date_def)

theorem pwv_z_interpolates_witness:
  "fst (pwv_z (example_date 0 58 20) example_world) = Inr 5 \<and>
   fst (pwv_z (example_date 1 18 20) example_world) = Inr 15 \<and>
   fst (pwv_z (example_date 1 5 0) example_world) = Inr 8 \<and>
   fst (pwv_los (example_date 1 8 20) 1 example_world) = Inr 10 \<and>
   fst (pwv_los (example_date 0 58 20) 1 example_world) = Inr 5 \<and>
   fst (pwv_los (example_date 1 18 20) 1 example_world) = Inr 15"
proof -
  let ?m = "\<lparr>colnames = [''date'', ''pwv''], units = [],
             rows = [(3600 :: real, 5 :: real), (4600, 15)]\<rparr>"
  have r: "rows ?m \<noteq> []" and s: "sorted_wrt (<) (map fst (rows ?m))" by simp_all
  note th = pwv_z_interpolates [OF example_pwv_model r s]
  have "fst (pwv_z (example_date 0 58 20) example_world) = Inr (snd (hd (rows ?m)))"
    by (rule th [THEN conjunct1, THEN mp]) (simp add: example_timestamp)
  then have before: "fst (pwv_z (example_date 0 58 20) example_world) = Inr 5" by simp
  have "fst (pwv_z (example_date 1 18 20) example_world) = Inr (snd (last (rows ?m)))"
    by (rule th [THEN conjunct2, THEN conjunct1, THEN mp]) (simp add: example_timestamp)
  then have after: "fst (pwv_z (example_date 1 18 20) example_world) = Inr 15" by simp
  have "fst (pwv_z (example_date 1 5 0) example_world) =
      Inr (snd (rows ?m ! 0) +
           (timestamp example_world (example_date 1 5 0) - fst (rows ?m ! 0)) *
           (snd (rows ?m ! Suc 0) - snd (rows ?m ! 0)) /
           (fst (rows ?m ! Suc 0) - fst (rows ?m ! 0)))"
    by (rule th [THEN conjunct2, THEN conjunct2, THEN conjunct1, THEN spec, THEN mp])
      (simp add: example_timestamp)
  then have inside: "fst (pwv_z (example_date 1 5 0) example_world) = Inr 8"
    by (simp add: example_timestamp)
  have middle: "fst (pwv_los (example_date 1 8 20) 1 example_world) = Inr 10"
    by (rule th [of _ 3600, THEN conjunct2, THEN conjunct2, THEN conjunct2, THEN mp,
          THEN conjunct1, THEN mp])
      (simp_all add: example_timestamp)
  have early: "fst (pwv_los (example_date 0 58 20) 1 example_world) = Inr 5"
    by (rule th [of _ 3600, THEN conjunct2, THEN conjunct2, THEN conjunct2, THEN mp,
          THEN conjunct2, THEN conjunct1, THEN mp])
      (simp_all add: example_timestamp)
  have late: "fst (pwv_los (example_date 1 18 20) 1 example_world) = Inr 15"
    by (rule th [of _ 3600, THEN conjunct2, THEN conjunct2, THEN conjunct2, THEN mp,
          THEN conjunct2, THEN conjunct2, THEN mp])
      (simp_all add: example_timestamp)
  from before after inside middle early late show ?thesis by (intro conjI)
qed

lemma example_pwv_z:
  "pwv_z (example_date 1 8 20) example_world =
      (Inr 10, example_world\<lparr>reads := [''./pwv_tables/modeled_pwv.csv'']\<rparr>)"
proof -
  have "reads example_world = []" by (simp add: example_world_def)
  then show ?thesis
    by (simp add: pwv_z_eq [OF example_pwv_model] np_interp_def example_timestamp)
qed

lemma example_atm_mods:
  "atm_mods (example_world\<lparr>reads := [''./pwv_tables/modeled_pwv.csv'']\<rparr>) =
     (Inr [(4, [(7000, 0.9), (7001, 0.8)]), (6, [(7000, 0.7), (7001, 0.6)])],
      example_world\<lparr>reads := [''./pwv_tables/modeled_pwv.csv'', ''./atm_models'',
         ''./atm_models/atm_model_pwv_4.0_.csv'', ''./atm_models/atm_model_pwv_6.0_.csv'']\<rparr>)"
  by (simp add: example_world_def atm_mods_def os_listdir_atm_def ATM_MOD_DIR_def
        Table_read_atm_def endswith_def os_path_basename_def py_index_def os_path_join_def)

text \<open>
  Claim C4. The line-of-sight PWV is the zenith PWV times the airmass, and it is the value
  \<^verbatim>\<open>transmission\<close> interpolates the atmospheric models at; with airmass 2 it is exactly twice
  the value with airmass 1.
\<close>

theorem pwv_los_scales_with_airmass:
  "pwv_z date w = (Inr z, w') \<Longrightarrow>
     pwv_los date airmass w = (Inr (z * airmass), w') \<and>
     pwv_los date 1 w = (Inr z, w') \<and>
     pwv_los date 2 w = (Inr (2 * z), w') \<and>
     (airmass_value v = Some airmass \<longrightarrow>
        transmission (PyDatetime date) v w =
          (case atm_mods w' of
             (Inl e, w'') \<Rightarrow> (Inl e, w'')
           | (Inr mods, w'') \<Rightarrow> (trans_func (z * airmass) mods, w'')))"
  by (simp add: pwv_los_def transmission_def)

theorem pwv_los_scales_with_airmass_witness:
  "pwv_los (example_date 1 8 20) 1 example_world =
     (Inr 10, example_world\<lparr>reads := [''./pwv_tables/modeled_pwv.csv'']\<rparr>) \<and>
   pwv_los (example_date 1 8 20) 2 example_world =
     (Inr 20, example_world\<lparr>reads := [''./pwv_tables/modeled_pwv.csv'']\<rparr>) \<and>
   pwv_los (example_date 1 8 20) 1.5 example_world =
     (Inr 15, example_world\<lparr>reads := [''./pwv_tables/modeled_pwv.csv'']\<rparr>) \<and>
   fst (transmission (PyDatetime (example_date 1 8 20)) (PyFloat 1.5) example_world) =
     Inr [(7000, 0.7), (7001, 0.6)]"
proof -
  note th = pwv_los_scales_with_airmass [OF example_pwv_z, of "1.5" "PyFloat 1.5"]
  have a: "airmass_value (PyFloat 1.5) = Some 1.5" by (simp add: airmass_value_def)
  have "fst (transmission (PyDatetime (example_date 1 8 20)) (PyFloat 1.5) example_world) =
      trans_func (10 * 1.5) [(4, [(7000, 0.9), (7001, 0.8)]), (6, [(7000, 0.7), (7001, 0.6)])]"
    using th [THEN conjunct2, THEN conjunct2, THEN conjunct2, THEN mp, OF a]
    by (simp add: example_atm_mods)
  also have "\<dots> = Inr [(7000, 0.7), (7001, 0.6)]"
    by (simp add: trans_func_def py_min_def dict_get_def bind_err_def np_interp_def py_index_def
          enumerate_eq_zip upt_rec)
  finally have t: "fst (transmission (PyDatetime (example_date 1 8 20)) (PyFloat 1.5) example_world) =
      Inr [(7000, 0.7), (7001, 0.6)]" .
  from th have l: "pwv_los (example_date 1 8 20) 1 example_world =
       (Inr 10, example_world\<lparr>reads := [''./pwv_tables/modeled_pwv.csv'']\<rparr>)"
    "pwv_los (example_date 1 8 20) 2 example_world =
       (Inr 20, example_world\<lparr>reads := [''./pwv_tables/modeled_pwv.csv'']\<rparr>)"
    "pwv_los (example_date 1 8 20) 1.5 example_world =
       (Inr 15, example_world\<lparr>reads := [''./pwv_tables/modeled_pwv.csv'']\<rparr>)"
    by simp_all
  from l t show ?thesis by (intro conjI)
qed

subsection \<open>Refining by year, month, day and hour\<close>

lemma take_rows_np_where:
  "take_rows tab (np_where (map Q (map fst (rows tab)))) =
     tab\<lparr>rows := filter (\<lambda>r. Q (fst r)) (rows tab)\<rparr>"
proof -
  let ?rs = "rows tab"
  have "filter (\<lambda>r. Q (fst r)) ?rs = filter (\<lambda>r. Q (fst r)) (map (\<lambda>i. ?rs ! i) [0..<length ?rs])"
    by (simp add: map_nth)
  also have "\<dots> = map (\<lambda>i. ?rs ! i) (filter (\<lambda>i. Q (fst (?rs ! i))) [0..<length ?rs])"
    by (simp add: filter_map comp_def)
  also have "filter (\<lambda>i. Q (fst (?rs ! i))) [0..<length ?rs] =
      filter (\<lambda>i. map Q (map fst ?rs) ! i) [0..<length ?rs]"
    by (rule filter_cong) simp_all
  finally show ?thesis by (simp add: take_rows_def np_where_def)
qed

lemma np_logical_and_map:
  "np_logical_and (map P xs) (map Q xs) = map (\<lambda>x. P x \<and> Q x) xs"
  by (simp add: np_logical_and_def zip_map_map zip_same_conv_map)

lemma refine_by_map:
  "dates \<noteq> [] \<Longrightarrow>
   refine_by field attr dates (map P dates) =
     Inr (map (\<lambda>x. P x \<and> (truthy field \<longrightarrow> int_eq (attr x) field)) dates)"
  by (simp add: refine_by_def np_vectorize_def bind_err_def np_logical_and_map)

lemma refine_filters:
  assumes "rows pwv_data \<noteq> []"
  shows "refine year month day hour pwv_data =
    Inr (if truthy year
         then pwv_data\<lparr>rows :=
                filter (\<lambda>r. int_eq (dt_year (fst r)) year \<and>
                            (truthy month \<longrightarrow> int_eq (dt_month (fst r)) month) \<and>
                            (truthy day \<longrightarrow> int_eq (dt_day (fst r)) day) \<and>
                            (truthy hour \<longrightarrow> int_eq (dt_hour (fst r)) hour))
                  (rows pwv_data)\<rparr>
         else pwv_data)"
proof (cases "truthy year")
  case False
  then show ?thesis by (simp add: refine_def)
next
  case True
  let ?dates = "map fst (rows pwv_data)"
  let ?Q = "\<lambda>x. ((int_eq (dt_year x) year \<and> (truthy month \<longrightarrow> int_eq (dt_month x) month)) \<and>
                 (truthy day \<longrightarrow> int_eq (dt_day x) day)) \<and>
                (truthy hour \<longrightarrow> int_eq (dt_hour x) hour)"
  from assms have ne: "?dates \<noteq> []" by simp
  have "refine year month day hour pwv_data = Inr (take_rows pwv_data (np_where (map ?Q ?dates)))"
    using True ne
    by (simp only: refine_def Let_def if_True np_vectorize_def if_False bind_err_def sum.case
          refine_by_map [OF ne])
  also have "take_rows pwv_data (np_where (map ?Q ?dates)) =
      pwv_data\<lparr>rows := filter (\<lambda>r. ?Q (fst r)) (rows pwv_data)\<rparr>"
    by (rule take_rows_np_where)
  finally show ?thesis using True by (simp add: conj_assoc)
qed

lemma rows_set_unit [simp]: "rows (set_unit c u tab) = rows tab"
  by (simp add: set_unit_def)

lemma rows_measured_units [simp]: "rows (measured_units tab) = rows tab"
proof -
  have "rows (foldl (\<lambda>tab colname. if colname \<noteq> ''date'' then set_unit colname ''mm'' tab else tab)
      t cs) = rows t" for t :: "('a, 'b) table" and cs
    by (induction cs arbitrary: t) simp_all
  then show ?thesis by (simp add: measured_units_def)
qed

lemma rows_modeled_units [simp]: "rows (modeled_units tab) = rows tab"
  by (simp add: modeled_units_def)

lemma rows_set_date [simp]:
  "length dates = length (rows tab) \<Longrightarrow> map fst (rows (set_date tab dates)) = dates"
  by (simp add: set_date_def)

text \<open>
  What the two functions return for arguments that pass the checks, when the table is there
  and has a row: the converted table when year is absent or zero, otherwise its rows whose
  date matches year and every further field that is neither absent nor zero.
\<close>

lemma measured_pwv_filters:
  assumes "check_args year month day hour = None"
    and "measured_pwv_csv w = Some tab" and "rows tab \<noteq> []"
  shows "fst (measured_pwv year month day hour w) =
    Inr (let pwv_data = measured_units (set_date tab (map (fromtimestamp w) (map fst (rows tab))))
         in if truthy year
            then pwv_data\<lparr>rows :=
                   filter (\<lambda>r. int_eq (dt_year (fst r)) year \<and>
                               (truthy month \<longrightarrow> int_eq (dt_month (fst r)) month) \<and>
                               (truthy day \<longrightarrow> int_eq (dt_day (fst r)) day) \<and>
                               (truthy hour \<longrightarrow> int_eq (dt_hour (fst r)) hour))
                     (rows pwv_data)\<rparr>
            else pwv_data)"
proof -
  let ?pwv_data = "measured_units (set_date tab (map (fromtimestamp w) (map fst (rows tab))))"
  from assms(3) have "rows ?pwv_data \<noteq> []" by (simp add: set_date_def)
  from refine_filters [OF this, of year month day hour] assms show ?thesis
    by (simp add: measured_pwv_def Table_read_measured_def np_vectorize_def bind_err_def Let_def)
qed

lemma modeled_pwv_filters:
  assumes "check_args year month day hour = None"
    and "modeled_pwv_csv w = Some tab" and "rows tab \<noteq> []"
  shows "fst (modeled_pwv year month day hour w) =
    Inr (let pwv_data = modeled_units (set_date tab (map (fromtimestamp w) (map fst (rows tab))))
         in if truthy year
            then pwv_data\<lparr>rows :=
                   filter (\<lambda>r. int_eq (dt_year (fst r)) year \<and>
                               (truthy month \<longrightarrow> int_eq (dt_month (fst r)) month) \<and>
                               (truthy day \<longrightarrow> int_eq (dt_day (fst r)) day) \<and>
                               (truthy hour \<longrightarrow> int_eq (dt_hour (fst r)) hour))
                     (rows pwv_data)\<rparr>
            else pwv_data)"
proof -
  let ?pwv_data = "modeled_units (set_date tab (map (fromtimestamp w) (map fst (rows tab))))"
  from assms(3) have "rows ?pwv_data \<noteq> []" by (simp add: set_date_def)
  from refine_filters [OF this, of year month day hour] assms show ?thesis
    by (simp add: modeled_pwv_def Table_read_modeled_def np_vectorize_def bind_err_def Let_def)
qed

lemmas filter_defs = measured_pwv_def modeled_pwv_def check_args_def isinstance_int_def
  Table_read_measured_def Table_read_modeled_def os_path_join_def PWV_TAB_DIR_def
  np_vectorize_def bind_err_def refine_def refine_by_def truthy_def int_eq_def
  np_logical_and_def np_where_def take_rows_def measured_units_def modeled_units_def
  set_unit_def set_date_def example_world_def example_date_def

text \<open>
  Claim C1 says that the rows returned are exactly those whose date matches every supplied
  field. The code tests the fields by truth value (\<^verbatim>\<open>if hour:\<close>), so a field supplied as 0 is
  skipped: with \<open>hour = 0\<close> on 2016-01-01 \<^verbatim>\<open>measured_pwv\<close> returns the 05:00 measurement next
  to the 00:30 one, and \<^verbatim>\<open>modeled_pwv\<close> returns both values of the hour from 01:00, where
  no row of hour 0 exists.
\<close>

theorem hour_zero_keeps_every_hour:
  "fst (measured_pwv (PyInt 2016) (PyInt 1) (PyInt 1) (PyInt 0) example_world) =
     Inr \<lparr>colnames = [''date'', ''KITT'', ''AZAM''],
          units = [(''date'', ''UTC''), (''KITT'', ''mm''), (''AZAM'', ''mm'')],
          rows = [(example_date 0 30 0, [4.5, 5.5]), (example_date 5 0 0, [6.5, 7.5])]\<rparr> \<and>
   fst (modeled_pwv (PyInt 2016) (PyInt 1) (PyInt 1) (PyInt 0) example_world) =
     Inr \<lparr>colnames = [''date'', ''pwv''],
          units = [(''date'', ''UTC''), (''pwv'', ''mm'')],
          rows = [(example_date 1 0 0, 5), (example_date 1 16 40, 15)]\<rparr>"
  by (simp add: filter_defs)

lemma hour_five_keeps_that_hour:
  "fst (measured_pwv (PyInt 2016) (PyInt 1) (PyInt 1) (PyInt 5) example_world) =
     Inr \<lparr>colnames = [''date'', ''KITT'', ''AZAM''],
          units = [(''date'', ''UTC''), (''KITT'', ''mm''), (''AZAM'', ''mm'')],
          rows = [(example_date 5 0 0, [6.5, 7.5])]\<rparr>"
  by (simp add: filter_defs)

lemma refine_zero:
  "refine year month day (PyInt 0) pwv_data = refine year month day PyNone pwv_data"
  "refine year month (PyInt 0) hour pwv_data = refine year month PyNone hour pwv_data"
  "refine year (PyInt 0) day hour pwv_data = refine year PyNone day hour pwv_data"
  "refine (PyInt 0) month day hour pwv_data = Inr pwv_data"
  by (simp_all add: refine_def Let_def refine_by_def truthy_def)

lemma check_args_zero:
  "check_args year month day (PyInt 0) = None \<Longrightarrow> check_args year month day PyNone = None"
  "check_args year month (PyInt 0) PyNone = None \<Longrightarrow> check_args year month PyNone PyNone = None"
  "check_args year (PyInt 0) PyNone PyNone = None \<Longrightarrow> check_args year PyNone PyNone PyNone = None"
  "check_args (PyInt 0) PyNone PyNone PyNone = None"
  "check_args PyNone PyNone PyNone PyNone = None"
  by (auto simp add: check_args_def isinstance_int_def split: if_splits)

lemma same_check_same_refine:
  assumes "check_args year month day hour = None" "check_args year' month' day' hour' = None"
    and "\<And>pwv_data :: (datetime, real list) table.
           refine year month day hour pwv_data = refine year' month' day' hour' pwv_data"
    and "\<And>pwv_data :: (datetime, real) table.
           refine year month day hour pwv_data = refine year' month' day' hour' pwv_data"
  shows "measured_pwv year month day hour w = measured_pwv year' month' day' hour' w \<and>
         modeled_pwv year month day hour w = modeled_pwv year' month' day' hour' w"
  using assms by (simp add: measured_pwv_def modeled_pwv_def split: prod.splits sum.splits)

text \<open>
  Claim C10, as amended. A field supplied as the integer 0 is not applied: the refinement
  step gives what it gives with that field absent, and nothing is refined at all when year
  is 0. For a call that passes the argument checks, the result (and the log of reads) equals
  that of the same call with the zero field omitted whenever that call passes the checks
  too: always for hour, and for day, month and year when no more specific field is supplied.
\<close>

theorem zero_field_not_applied:
  "refine year month day (PyInt 0) pwv_data = refine year month day PyNone pwv_data \<and>
   refine year month (PyInt 0) hour pwv_data = refine year month PyNone hour pwv_data \<and>
   refine year (PyInt 0) day hour pwv_data = refine year PyNone day hour pwv_data \<and>
   refine (PyInt 0) month day hour pwv_data = Inr pwv_data \<and>
   (check_args year month day (PyInt 0) = None \<longrightarrow>
      measured_pwv year month day (PyInt 0) w = measured_pwv year month day PyNone w \<and>
      modeled_pwv year month day (PyInt 0) w = modeled_pwv year month day PyNone w) \<and>
   (check_args year month (PyInt 0) PyNone = None \<longrightarrow>
      measured_pwv year month (PyInt 0) PyNone w = measured_pwv year month PyNone PyNone w \<and>
      modeled_pwv year month (PyInt 0) PyNone w = modeled_pwv year month PyNone PyNone w) \<and>
   (check_args year (PyInt 0) PyNone PyNone = None \<longrightarrow>
      measured_pwv year (PyInt 0) PyNone PyNone w = measured_pwv year PyNone PyNone PyNone w \<and>
      modeled_pwv year (PyInt 0) PyNone PyNone w = modeled_pwv year PyNone PyNone PyNone w) \<and>
   measured_pwv (PyInt 0) PyNone PyNone PyNone w = measured_pwv PyNone PyNone PyNone PyNone w \<and>
   modeled_pwv (PyInt 0) PyNone PyNone PyNone w = modeled_pwv PyNone PyNone PyNone PyNone w"
proof -
  have hour: "check_args year month day (PyInt 0) = None \<longrightarrow>
      measured_pwv year month day (PyInt 0) w = measured_pwv year month day PyNone w \<and>
      modeled_pwv year month day (PyInt 0) w = modeled_pwv year month day PyNone w"
  proof
    assume a: "check_args year month day (PyInt 0) = None"
    show "measured_pwv year month day (PyInt 0) w = measured_pwv year month day PyNone w \<and>
      modeled_pwv year month day (PyInt 0) w = modeled_pwv year month day PyNone w"
      by (rule same_check_same_refine [OF a check_args_zero(1) [OF a]]) (rule refine_zero)+
  qed
  have day: "check_args year month (PyInt 0) PyNone = None \<longrightarrow>
      measured_pwv year month (PyInt 0) PyNone w = measured_pwv year month PyNone PyNone w \<and>
      modeled_pwv year month (PyInt 0) PyNone w = modeled_pwv year month PyNone PyNone w"
  proof
    assume a: "check_args year month (PyInt 0) PyNone = None"
    show "measured_pwv year month (PyInt 0) PyNone w = measured_pwv year month PyNone PyNone w \<and>
      modeled_pwv year month (PyInt 0) PyNone w = modeled_pwv year month PyNone PyNone w"
      by (rule same_check_same_refine [OF a check_args_zero(2) [OF a]]) (rule refine_zero)+
  qed
  have month: "check_args year (PyInt 0) PyNone PyNone = None \<longrightarrow>
      measured_pwv year (PyInt 0) PyNone PyNone w = measured_pwv year PyNone PyNone PyNone w \<and>
      modeled_pwv year (PyInt 0) PyNone PyNone w = modeled_pwv year PyNone PyNone PyNone w"
  proof
    assume a: "check_args year (PyInt 0) PyNone PyNone = None"
    show "measured_pwv year (PyInt 0) PyNone PyNone w = measured_pwv year PyNone PyNone PyNone w \<and>
      modeled_pwv year (PyInt 0) PyNone PyNone w = modeled_pwv year PyNone PyNone PyNone w"
      by (rule same_check_same_refine [OF a check_args_zero(3) [OF a]]) (rule refine_zero)+
  qed
  have "measured_pwv (PyInt 0) PyNone PyNone PyNone w = measured_pwv PyNone PyNone PyNone PyNone w \<and>
      modeled_pwv (PyInt 0) PyNone PyNone PyNone w = modeled_pwv PyNone PyNone PyNone PyNone w"
    by (rule same_check_same_refine) (simp_all add: check_args_zero refine_def truthy_def)
  then have year: "measured_pwv (PyInt 0) PyNone PyNone PyNone w =
        measured_pwv PyNone PyNone PyNone PyNone w"
      "modeled_pwv (PyInt 0) PyNone PyNone PyNone w = modeled_pwv PyNone PyNone PyNone PyNone w"
    by simp_all
  have zero: "refine year month day (PyInt 0) pwv_data = refine year month day PyNone pwv_data"
    "refine year month (PyInt 0) hour pwv_data = refine year month PyNone hour pwv_data"
    "refine year (PyInt 0) day hour pwv_data = refine year PyNone day hour pwv_data"
    "refine (PyInt 0) month day hour pwv_data = Inr pwv_data"
    by (rule refine_zero)+
  from zero hour day month year show ?thesis by (intro conjI)
qed

theorem zero_field_not_applied_witness:
  "measured_pwv (PyInt 2016) (PyInt 1) (PyInt 1) (PyInt 0) example_world =
     measured_pwv (PyInt 2016) (PyInt 1) (PyInt 1) PyNone example_world \<and>
   modeled_pwv (PyInt 2016) (PyInt 1) (PyInt 0) PyNone example_world =
     modeled_pwv (PyInt 2016) (PyInt 1) PyNone PyNone example_world \<and>
   measured_pwv (PyInt 2016) (PyInt 0) PyNone PyNone example_world =
     measured_pwv (PyInt 2016) PyNone PyNone PyNone example_world"
proof -
  have c: "check_args (PyInt 2016) (PyInt 1) (PyInt 1) (PyInt 0) = None"
    "check_args (PyInt 2016) (PyInt 1) (PyInt 0) PyNone = None"
    "check_args (PyInt 2016) (PyInt 0) PyNone PyNone = None"
    by (simp_all add: check_args_def isinstance_int_def)
  note th = zero_field_not_applied [THEN conjunct2, THEN conjunct2, THEN conjunct2, THEN conjunct2]
  note hour = th [THEN conjunct1, THEN mp, OF c(1), THEN conjunct1]
  note day = th [THEN conjunct2, THEN conjunct1, THEN mp, OF c(2), THEN conjunct2]
  note month = th [THEN conjunct2, THEN conjunct2, THEN conjunct1, THEN mp, OF c(3), THEN conjunct1]
  from hour day month show ?thesis by (intro conjI)
qed

text \<open>
  The claim as first stated makes every call with a zero field equal to the call without
  it. With \<open>year = 0\<close> and \<open>month = 5\<close> the first returns the whole table; the second is
  month without year and raises.
\<close>

theorem year_zero_is_not_year_omitted:
  "fst (measured_pwv (PyInt 0) (PyInt 5) PyNone PyNone example_world) =
     Inr \<lparr>colnames = [''date'', ''KITT'', ''AZAM''],
          units = [(''date'', ''UTC''), (''KITT'', ''mm''), (''AZAM'', ''mm'')],
          rows = [(example_date 0 30 0, [4.5, 5.5]), (example_date 5 0 0, [6.5, 7.5])]\<rparr> \<and>
   fst (measured_pwv PyNone (PyInt 5) PyNone PyNone example_world) =
     Inl (ValueError ''Argument 'month' (pos 2) specified without 'year' (pos 1).'')"
  by (simp add: filter_defs)

subsection \<open>The transmission function\<close>

lemma map_err_Inr:
  "(\<And>x. x \<in> set xs \<Longrightarrow> f x = Inr (g x)) \<Longrightarrow> map_err f xs = Inr (map g xs)"
  by (induction xs) simp_all

lemma map_err_length: "map_err f xs = Inr ys \<Longrightarrow> length ys = length xs"
  by (induction xs arbitrary: ys) (auto split: sum.splits)

lemma np_interp_defined:
  "xp \<noteq> [] \<Longrightarrow> length fp = length xp \<Longrightarrow> \<exists>y. np_interp x xp fp = Inr y"
  by (simp add: np_interp_def)

lemma py_min_least:
  "py_min xs = Inr k \<Longrightarrow> k \<in> set xs \<and> (\<forall>x\<in>set xs. k \<le> x)"
proof (cases xs)
  case (Cons x ys)
  have "foldl min a ys \<in> set (a # ys) \<and> (\<forall>y\<in>set (a # ys). foldl min a ys \<le> y)" for a :: real
  proof (induction ys arbitrary: a)
    case (Cons b bs)
    from Cons [of "min a b"] show ?case by (auto simp add: min_def split: if_splits)
  qed simp
  from this [of x] Cons show "py_min xs = Inr k \<Longrightarrow> ?thesis" by (auto simp add: py_min_def)
qed (simp add: py_min_def)

lemma py_min_defined: "xs \<noteq> [] \<Longrightarrow> \<exists>k. py_min xs = Inr k"
  by (cases xs) (simp_all add: py_min_def)

lemma dict_get_distinct:
  "distinct (map fst mods) \<Longrightarrow> (k, tab) \<in> set mods \<Longrightarrow> dict_get mods k = Inr tab"
  by (simp add: dict_get_def)

text \<open>The wavelength column of the table that the loop builds.\<close>

lemma trans_rows_wavelengths:
  "trans_rows los mods es tf = Inr r \<Longrightarrow> map fst r = map fst tf @ map snd es"
proof (induction los mods es tf arbitrary: r rule: trans_rows.induct)
  case (2 los mods i wvlngth rest tf)
  from "2.prems" obtain transm interp_trans where
    "map_err (\<lambda>pwv. bind_err (dict_get mods pwv) (\<lambda>tab. py_index (map snd tab) i)) (map fst mods)
       = Inr transm"
    "np_interp los (map fst mods) transm = Inr interp_trans"
    "trans_rows los mods rest (tf @ [(wvlngth, interp_trans)]) = Inr r"
    by (auto split: sum.splits)
  with "2.IH" [of transm interp_trans r] show ?case by simp
qed simp

lemma trans_rows_prefix:
  "trans_rows los mods es tf = Inr r \<Longrightarrow> take (length tf) r = tf"
proof (induction los mods es tf arbitrary: r rule: trans_rows.induct)
  case (2 los mods i wvlngth rest tf)
  from "2.prems" obtain transm interp_trans where
    "map_err (\<lambda>pwv. bind_err (dict_get mods pwv) (\<lambda>tab. py_index (map snd tab) i)) (map fst mods)
       = Inr transm"
    "np_interp los (map fst mods) transm = Inr interp_trans"
    "trans_rows los mods rest (tf @ [(wvlngth, interp_trans)]) = Inr r"
    by (auto split: sum.splits)
  with "2.IH" [of transm interp_trans r]
  have "take (Suc (length tf)) r = tf @ [(wvlngth, interp_trans)]" by simp
  then have "take (length tf) (take (Suc (length tf)) r) = tf" by simp
  then show ?case by (simp add: min_def)
qed simp

lemma map_err_map: "map_err f (map g xs) = map_err (\<lambda>x. f (g x)) xs"
  by (induction xs) (simp_all split: sum.splits)

text \<open>The transmission column, row by row.\<close>

lemma trans_rows_values:
  assumes "trans_rows los mods (enumerate n ws) tf = Inr r" and "distinct (map fst mods)"
    and "j < length ws"
  shows "length r = length tf + length ws \<and>
    np_interp los (map fst mods) (map (\<lambda>p. snd (snd p ! (n + j))) mods) =
      Inr (snd (r ! (length tf + j)))"
  using assms
proof (induction ws arbitrary: n tf j)
  case (Cons wv ws)
  let ?get = "\<lambda>pwv. bind_err (dict_get mods pwv) (\<lambda>tab. py_index (map snd tab) n)"
  from Cons.prems(1) obtain transm interp_trans where
    m: "map_err ?get (map fst mods) = Inr transm"
    and v: "np_interp los (map fst mods) transm = Inr interp_trans"
    and rest: "trans_rows los mods (enumerate (Suc n) ws) (tf @ [(wv, interp_trans)]) = Inr r"
    by (auto split: sum.splits)
  have col: "transm = map (\<lambda>p. snd (snd p ! n)) mods"
  proof -
    have "\<forall>p\<in>set ps. ?get (fst p) = Inr (snd (snd p ! n))"
      if "map_err ?get (map fst ps) = Inr ys" "set ps \<subseteq> set mods" for ps ys
      using that
    proof (induction ps arbitrary: ys)
      case (Cons p ps)
      from Cons.prems(2) Cons.prems(1) \<open>distinct (map fst mods)\<close>
      have "?get (fst p) = Inr (snd (snd p ! n))"
        using dict_get_distinct [of mods "fst p" "snd p"]
        by (auto simp add: bind_err_def py_index_def split: sum.splits if_splits)
      moreover from Cons.prems obtain zs where "map_err ?get (map fst ps) = Inr zs"
        by (auto split: sum.splits)
      ultimately show ?case using Cons.IH [of zs] Cons.prems(2) by simp
    qed simp
    from this [OF m] have "\<And>p. p \<in> set mods \<Longrightarrow> ?get (fst p) = Inr (snd (snd p ! n))" by simp
    then have "map_err (\<lambda>p. ?get (fst p)) mods = Inr (map (\<lambda>p. snd (snd p ! n)) mods)"
      by (rule map_err_Inr)
    with m show ?thesis by (simp add: map_err_map)
  qed
  from trans_rows_wavelengths [OF rest] have len: "length r = Suc (length tf) + length ws"
    by (metis length_append length_map length_enumerate list.size(3,4) add_Suc_shift add_Suc
          One_nat_def add.right_neutral)
  show ?case
  proof (cases j)
    case 0
    from trans_rows_prefix [OF rest]
    have "take (Suc (length tf)) r ! length tf = (wv, interp_trans)" by (simp add: nth_append)
    then have "r ! length tf = (wv, interp_trans)" by simp
    with v col len 0 show ?thesis by simp
  next
    case (Suc k)
    with Cons.prems have "k < length ws" by simp
    from Cons.IH [OF rest Cons.prems(2) this] Suc len show ?thesis by simp
  qed
qed simp

lemma dict_get_member:
  "k \<in> set (map fst mods) \<Longrightarrow> \<exists>tab. dict_get mods k = Inr tab \<and> (k, tab) \<in> set mods"
proof -
  assume "k \<in> set (map fst mods)"
  then obtain tab where "map_of mods k = Some tab"
    by (cases "map_of mods k") (auto simp add: map_of_eq_None_iff)
  then show ?thesis by (auto simp add: dict_get_def dest: map_of_SomeD)
qed

lemma trans_rows_defined:
  assumes "mods \<noteq> []" and "\<forall>p\<in>set mods. n + length ws \<le> length (snd p)"
  shows "\<exists>r. trans_rows los mods (enumerate n ws) tf = Inr r"
  using assms(2)
proof (induction ws arbitrary: n tf)
  case (Cons wv ws)
  let ?get = "\<lambda>pwv. bind_err (dict_get mods pwv) (\<lambda>tab. py_index (map snd tab) n)"
  have "\<exists>y. ?get pwv = Inr y" if "pwv \<in> set (map fst mods)" for pwv
  proof -
    from dict_get_member [OF that] obtain tab where
      "dict_get mods pwv = Inr tab" "(pwv, tab) \<in> set mods" by blast
    moreover with Cons.prems have "n < length tab" by fastforce
    ultimately show ?thesis by (simp add: bind_err_def py_index_def)
  qed
  then have "\<forall>pwv\<in>set (map fst mods). ?get pwv = Inr (projr (?get pwv))"
    by (metis sum.sel(2))
  then have "map_err ?get (map fst mods) = Inr (map (\<lambda>pwv. projr (?get pwv)) (map fst mods))"
    by (intro map_err_Inr) blast
  then obtain transm where m: "map_err ?get (map fst mods) = Inr transm"
    and "length transm = length (map fst mods)"
    by simp
  with assms(1) obtain interp_trans where "np_interp los (map fst mods) transm = Inr interp_trans"
    using np_interp_defined [of "map fst mods" transm los] by auto
  moreover from Cons.prems have "\<forall>p\<in>set mods. Suc n + length ws \<le> length (snd p)" by simp
  from Cons.IH [OF this]
  obtain r where "trans_rows los mods (enumerate (Suc n) ws) (tf @ [(wv, interp_trans)]) = Inr r"
    by blast
  ultimately show ?case using m by simp
qed simp

lemma read_atm_mods_distinct:
  "read_atm_mods files mods w = (Inr mods', w') \<Longrightarrow> distinct (map fst mods) \<Longrightarrow>
   distinct (map fst mods')"
proof (induction files mods w rule: read_atm_mods.induct)
  case (2 name files mods w)
  then show ?case
    by (auto simp add: distinct_update split: if_splits sum.splits option.splits prod.splits)
qed simp

lemma atm_mods_distinct: "atm_mods w = (Inr mods, w') \<Longrightarrow> distinct (map fst mods)"
  by (auto simp add: atm_mods_def split: prod.splits sum.splits dest: read_atm_mods_distinct)

lemma py_min_is:
  assumes "(k, tab) \<in> set mods" and "\<forall>p\<in>set mods. k \<le> fst p"
  shows "py_min (map fst mods) = Inr k"
proof -
  from assms(1) have "map fst mods \<noteq> []" by auto
  from py_min_defined [OF this] obtain k' where k': "py_min (map fst mods) = Inr k'" by blast
  from py_min_least [OF k'] assms have "k' \<le> k" "k \<le> k'" by force+
  with k' show ?thesis by simp
qed

lemma trans_func_eq:
  assumes "(k, tab) \<in> set mods" and "\<forall>p\<in>set mods. k \<le> fst p" and "distinct (map fst mods)"
  shows "trans_func los mods = trans_rows los mods (enumerate 0 (map fst tab)) []"
  using py_min_is [OF assms(1,2)] dict_get_distinct [OF assms(3,1)]
  by (simp add: trans_func_def bind_err_def)

lemma transmission_eq:
  assumes "pwv_los date a w = (Inr los, w')" and "airmass_value airmass = Some a"
    and "atm_mods w' = (Inr mods, w'')"
    and "(k, tab) \<in> set mods" and "\<forall>p\<in>set mods. k \<le> fst p"
  shows "transmission (PyDatetime date) airmass w =
    (trans_rows los mods (enumerate 0 (map fst tab)) [], w'')"
  using assms trans_func_eq [OF assms(4,5) atm_mods_distinct [OF assms(3)]]
  by (simp add: transmission_def)

text \<open>
  Claim C5, as amended. Let the atmospheric models hold at least one curve, and let \<open>tab\<close>
  be the curve of the least PWV level. Whenever \<^verbatim>\<open>transmission\<close> returns a table, its
  wavelength column is the wavelength column of \<open>tab\<close>, row for row in the same order (so
  ascending when that grid is ascending), one row per grid point; and it does return a table
  when no curve has fewer rows than \<open>tab\<close>, which covers every set of curves on a shared
  grid.
\<close>

theorem transmission_wavelength_grid:
  assumes "pwv_los date a w = (Inr los, w')" and "airmass_value airmass = Some a"
    and "atm_mods w' = (Inr mods, w'')"
    and "(k, tab) \<in> set mods" and "\<forall>p\<in>set mods. k \<le> fst p"
  shows "(\<forall>tf. fst (transmission (PyDatetime date) airmass w) = Inr tf \<longrightarrow>
            map fst tf = map fst tab \<and> length tf = length tab \<and>
            (sorted (map fst tab) \<longrightarrow> sorted (map fst tf))) \<and>
         ((\<forall>p\<in>set mods. length tab \<le> length (snd p)) \<longrightarrow>
            (\<exists>tf. fst (transmission (PyDatetime date) airmass w) = Inr tf))"
proof -
  note eq = transmission_eq [OF assms]
  have grid: "\<forall>tf. fst (transmission (PyDatetime date) airmass w) = Inr tf \<longrightarrow>
            map fst tf = map fst tab \<and> length tf = length tab \<and>
            (sorted (map fst tab) \<longrightarrow> sorted (map fst tf))"
  proof (intro allI impI)
    fix tf
    assume "fst (transmission (PyDatetime date) airmass w) = Inr tf"
    with eq have "trans_rows los mods (enumerate 0 (map fst tab)) [] = Inr tf" by simp
    from trans_rows_wavelengths [OF this] have m: "map fst tf = map fst tab" by simp
    then have "length tf = length tab" by (metis length_map)
    with m show "map fst tf = map fst tab \<and> length tf = length tab \<and>
            (sorted (map fst tab) \<longrightarrow> sorted (map fst tf))" by simp
  qed
  have returns: "(\<forall>p\<in>set mods. length tab \<le> length (snd p)) \<longrightarrow>
            (\<exists>tf. fst (transmission (PyDatetime date) airmass w) = Inr tf)"
  proof
    assume "\<forall>p\<in>set mods. length tab \<le> length (snd p)"
    moreover from assms(4) have "mods \<noteq> []" by auto
    ultimately have "\<exists>r. trans_rows los mods (enumerate 0 (map fst tab)) [] = Inr r"
      by (intro trans_rows_defined) simp_all
    with eq show "\<exists>tf. fst (transmission (PyDatetime date) airmass w) = Inr tf" by simp
  qed
  from grid returns show ?thesis by (intro conjI)
qed

lemma example_pwv_los:
  "pwv_los (example_date 1 8 20) 0.5 example_world =
     (Inr 5, example_world\<lparr>reads := [''./pwv_tables/modeled_pwv.csv'']\<rparr>)"
  by (simp add: example_world_def example_date_def pwv_los_def pwv_z_def Table_read_modeled_def
        os_path_join_def PWV_TAB_DIR_def np_interp_def)

theorem transmission_wavelength_grid_witness:
  "\<exists>tf. fst (transmission (PyDatetime (example_date 1 8 20)) (PyFloat 0.5) example_world) = Inr tf \<and>
        map fst tf = [7000, 7001] \<and> length tf = 2"
proof -
  let ?tab = "[(7000 :: real, 0.9 :: real), (7001, 0.8)]"
  let ?mods = "[(4 :: real, ?tab), (6, [(7000, 0.7), (7001, 0.6)])]"
  have a: "airmass_value (PyFloat 0.5) = Some 0.5" by (simp add: airmass_value_def)
  have m: "(4, ?tab) \<in> set ?mods" and least: "\<forall>p\<in>set ?mods. 4 \<le> fst p" by simp_all
  note th = transmission_wavelength_grid [OF example_pwv_los a example_atm_mods m least]
  have "\<forall>p\<in>set ?mods. length ?tab \<le> length (snd p)" by simp
  with th obtain tf where
    tf: "fst (transmission (PyDatetime (example_date 1 8 20)) (PyFloat 0.5) example_world) = Inr tf"
    by blast
  with th have "map fst tf = map fst ?tab \<and> length tf = length ?tab" by blast
  with tf show ?thesis by simp
qed

text \<open>
  The claim as first stated covers every set with at least one curve. When another curve is
  shorter than the curve of the least level, no table is returned: the index runs past the
  end of the shorter transmission column.
\<close>

theorem transmission_shorter_curve_raises:
  "fst (transmission (PyDatetime (example_date 1 0 0)) (PyInt 1) short_curve_world) =
     Inl (IndexError ''index out of range'')"
  by (simp add: short_curve_world_def example_world_def example_date_def trans_defs enumerate_eq_zip upt_rec)

text \<open>
  When the dictionary lists the PWV levels in ascending order, each transmission value of
  the result is the piecewise linear interpolant, over the levels, of the curves' values at
  that row, with the value of the nearest level outside the range of levels.
\<close>

lemma transmission_interpolates_ascending_levels:
  assumes "pwv_los date a w = (Inr los, w')" and "airmass_value airmass = Some a"
    and "atm_mods w' = (Inr mods, w'')"
    and "(k, tab) \<in> set mods" and "\<forall>p\<in>set mods. k \<le> fst p"
    and "sorted_wrt (<) (map fst mods)"
    and "fst (transmission (PyDatetime date) airmass w) = Inr tf" and "i < length tf"
  shows "(los \<le> fst (hd mods) \<longrightarrow> snd (tf ! i) = snd (snd (hd mods) ! i)) \<and>
         (fst (last mods) \<le> los \<longrightarrow> snd (tf ! i) = snd (snd (last mods) ! i)) \<and>
         (\<forall>j. Suc j < length mods \<and> fst (mods ! j) \<le> los \<and> los \<le> fst (mods ! Suc j) \<longrightarrow>
            snd (tf ! i) =
              snd (snd (mods ! j) ! i) +
              (los - fst (mods ! j)) * (snd (snd (mods ! Suc j) ! i) - snd (snd (mods ! j) ! i)) /
              (fst (mods ! Suc j) - fst (mods ! j)))"
proof -
  let ?xp = "map fst mods" and ?fp = "map (\<lambda>p. snd (snd p ! i)) mods"
  from assms(4) have ne: "mods \<noteq> []" by auto
  then have xne: "?xp \<noteq> []" and len: "length ?fp = length ?xp" by simp_all
  from transmission_eq [OF assms(1-5)] assms(7)
  have rows: "trans_rows los mods (enumerate 0 (map fst tab)) [] = Inr tf" by simp
  from trans_rows_wavelengths [OF rows] have "length tf = length tab" by (metis append_Nil length_map list.simps(8) map_snd_enumerate)
  with assms(8) have "i < length (map fst tab)" by simp
  from trans_rows_values [OF rows atm_mods_distinct [OF assms(3)] this]
  have v: "np_interp los ?xp ?fp = Inr (snd (tf ! i))" by simp
  have left: "los \<le> fst (hd mods) \<longrightarrow> snd (tf ! i) = snd (snd (hd mods) ! i)"
    using np_interp_left [OF xne len assms(6), of los] v ne by (simp add: hd_map)
  have right: "fst (last mods) \<le> los \<longrightarrow> snd (tf ! i) = snd (snd (last mods) ! i)"
    using np_interp_right [OF xne len assms(6), of los] v ne by (simp add: last_map)
  have between: "\<forall>j. Suc j < length mods \<and> fst (mods ! j) \<le> los \<and> los \<le> fst (mods ! Suc j) \<longrightarrow>
            snd (tf ! i) =
              snd (snd (mods ! j) ! i) +
              (los - fst (mods ! j)) * (snd (snd (mods ! Suc j) ! i) - snd (snd (mods ! j) ! i)) /
              (fst (mods ! Suc j) - fst (mods ! j))"
  proof (intro allI impI)
    fix j
    assume j: "Suc j < length mods \<and> fst (mods ! j) \<le> los \<and> los \<le> fst (mods ! Suc j)"
    then have "np_interp los ?xp ?fp =
        Inr (?fp ! j + (los - ?xp ! j) * (?fp ! Suc j - ?fp ! j) / (?xp ! Suc j - ?xp ! j))"
      by (intro np_interp_between [OF len assms(6)]) simp_all
    with v j show "snd (tf ! i) =
              snd (snd (mods ! j) ! i) +
              (los - fst (mods ! j)) * (snd (snd (mods ! Suc j) ! i) - snd (snd (mods ! j) ! i)) /
              (fst (mods ! Suc j) - fst (mods ! j))"
      by simp
  qed
  from left right between show ?thesis by (intro conjI)
qed

text \<open>
  Claim C2 says so for every set of curves on a shared grid. The code hands the levels to
  \<^verbatim>\<open>np.interp\<close> in the order of the dictionary, which is the order \<^verbatim>\<open>os.listdir\<close> gave the
  files, and does not sort them. With the PWV 6.0 file listed before the PWV 4.0 file and a
  line-of-sight PWV of 7.0 (zenith PWV 5, airmass 1.4), above both levels, the result is the
  curve of PWV 4.0 and not the curve of the nearest level, PWV 6.0.
\<close>

theorem transmission_levels_listed_descending:
  "fst (transmission (PyDatetime (example_date 1 0 0)) (PyFloat 1.4) descending_world) =
     Inr [(7000, 0.9), (7001, 0.8)]"
  by (simp add: descending_world_def example_world_def example_date_def trans_defs enumerate_eq_zip upt_rec)

end
